theory Spec2Isabelle
  imports Main "HOL-Library.Word"
begin

section \<open>Data model of \<open>src/primary/init.c\<close>\<close>

text \<open>
  The role of the running process, as \<open>rte_eal_process_type()\<close> reports it: a process
  is the primary or a secondary. The source compares the value with
  \<open>RTE_PROC_SECONDARY\<close> (lines 72, 111, 151) and with \<open>RTE_PROC_PRIMARY\<close> (line 178);
  the model keeps each comparison as it is written.
\<close>

datatype proc_type = RTE_PROC_PRIMARY | RTE_PROC_SECONDARY

text \<open>Handles of the external library are opaque addresses; \<open>None\<close> is the null pointer.\<close>

type_synonym mempool = nat
type_synonym ring = nat

text \<open>
  \<open>struct port_info\<close> is declared in \<open>common.h\<close>. \<open>init.c\<close> reads \<open>num_ports\<close> (compared
  with a \<open>uint16_t\<close> counter) and \<open>id[count]\<close>; the array is a total function of the index,
  its capacity being a constant of the external library. The field \<open>id\<close> is named
  \<open>id_arr\<close> here.
\<close>

record port_info =
  num_ports :: "16 word"
  id_arr :: "nat \<Rightarrow> 16 word"

text \<open>What \<open>memset(mz->addr, 0, sizeof(*ports))\<close> leaves in the region: every field zero.\<close>

definition zero_port_info :: port_info where
  "zero_port_info = \<lparr>num_ports = 0, id_arr = (\<lambda>_. 0)\<rparr>"

text \<open>\<open>struct client\<close>: \<open>init.c\<close> only writes the field \<open>rx_q\<close>.\<close>

record client =
  rx_q :: "ring option"

datatype ring_flag = RING_F_SP_ENQ | RING_F_SC_DEQ

definition CLIENT_QUEUE_RINGSIZE :: nat where
  "CLIENT_QUEUE_RINGSIZE = 128"

definition EXIT_FAILURE :: int where
  "EXIT_FAILURE = 1"

text \<open>
  Constants and helpers that \<open>init.c\<close> takes from \<open>args.h\<close>, \<open>common.h\<close> and \<open>init.h\<close>.
  These headers are not part of the sources at hand, so every one of them is a parameter.
\<close>

record common =
  MBUFS_PER_CLIENT :: nat
  MBUFS_PER_PORT :: nat
  MBUF_SIZE :: nat
  MBUF_CACHE_SIZE :: nat
  NO_FLAGS :: nat
  MZ_PORT_INFO :: string
  PKTMBUF_POOL_NAME :: string
  get_rx_queue_name :: "nat \<Rightarrow> string"
  sizeof_port_info :: nat
  sizeof_client :: nat
  sizeof_pktmbuf_pool_private :: nat

text \<open>
  The collaborators \<open>init.c\<close> calls: the execution environment, the named memory zones,
  pools and rings, the allocator, the argument parser and the port driver. Each is a
  function of its arguments giving the value the call returns; a null pointer is \<open>None\<close>.
  \<^item> \<open>rte_memzone_lookup\<close> and \<open>rte_memzone_reserve\<close> give the region's current contents.
  \<^item> \<open>rte_malloc\<close> gives the block with whatever it holds (it is not cleared).
  \<^item> \<open>parse_app_args\<close> writes \<open>ports->num_ports\<close>, \<open>ports->id\<close> and \<open>num_clients\<close>: it takes
    the region's contents and the current \<open>num_clients\<close> and gives back its return value
    and the new contents and count.
\<close>

record env =
  rte_eal_init :: "int \<Rightarrow> string list \<Rightarrow> int"
  rte_eal_process_type :: proc_type
  rte_eth_dev_count :: "16 word"
  rte_socket_id :: nat
  rte_memzone_lookup :: "string \<Rightarrow> port_info option"
  rte_memzone_reserve :: "string \<Rightarrow> nat \<Rightarrow> nat \<Rightarrow> nat \<Rightarrow> port_info option"
  parse_app_args :: "16 word \<Rightarrow> int \<Rightarrow> string list \<Rightarrow> port_info \<Rightarrow> nat \<Rightarrow> int \<times> port_info \<times> nat"
  rte_mempool_lookup :: "string \<Rightarrow> mempool option"
  rte_mempool_create :: "string \<Rightarrow> 32 word \<Rightarrow> nat \<Rightarrow> nat \<Rightarrow> nat \<Rightarrow> nat \<Rightarrow> nat \<Rightarrow> mempool option"
  init_port :: "16 word \<Rightarrow> mempool option \<Rightarrow> int"
  rte_malloc :: "string \<Rightarrow> nat \<Rightarrow> nat \<Rightarrow> (nat \<Rightarrow> client) option"
  rte_ring_lookup :: "string \<Rightarrow> ring option"
  rte_ring_create :: "string \<Rightarrow> nat \<Rightarrow> nat \<Rightarrow> ring_flag set \<Rightarrow> ring option"

text \<open>
  One event per call that leaves \<open>init.c\<close>, in program order. A \<open>bool\<close> says whether the
  call returned a non-null handle.
\<close>

datatype event =
    Eal_init int
  | Eth_dev_count
  | Memzone_lookup string bool
  | Memzone_reserve string nat bool
  | Memset_zero nat
  | Parse_app_args int
  | Mempool_lookup string bool
  | Mempool_create string "32 word" bool
  | Init_port "16 word" int
  | Check_all_ports_link_status "16 word" "32 word"
  | Malloc string nat bool
  | Ring_lookup string bool
  | Ring_create string nat "ring_flag set" bool
  | Rte_exit int string

text \<open>
  The globals of \<open>init.c\<close> (\<open>clients\<close>, \<open>pktmbuf_pool\<close>, \<open>ports\<close>), the global \<open>num_clients\<close>
  of \<open>args.h\<close>, and the calls made so far. A pointer is \<open>None\<close> when null and otherwise
  carries what it points to.
\<close>

record state =
  clients :: "(nat \<Rightarrow> client) option"
  pktmbuf_pool :: "mempool option"
  ports :: "port_info option"
  num_clients :: nat
  trace :: "event list"

text \<open>The globals when the process starts: C clears them.\<close>

definition startup :: state where
  "startup = \<lparr>clients = None, pktmbuf_pool = None, ports = None, num_clients = 0, trace = []\<rparr>"

text \<open>
  How a piece of code ends: it returns a value, \<open>rte_exit\<close> ends the process with a code,
  or it reads through a null pointer.
\<close>

datatype 'a outcome = Returned 'a | Exited int | Fault

definition emit :: "event \<Rightarrow> state \<Rightarrow> state" where
  "emit ev s = s\<lparr>trace := trace s @ [ev]\<rparr>"

definition rte_exit :: "int \<Rightarrow> string \<Rightarrow> state \<Rightarrow> state \<times> 'a outcome" where
  "rte_exit code msg s = (emit (Rte_exit code msg) s, Exited code)"

text \<open>Sequencing: what follows runs only when what precedes returned.\<close>

definition seq :: "state \<times> 'a outcome \<Rightarrow> ('a \<Rightarrow> state \<Rightarrow> state \<times> 'b outcome) \<Rightarrow> state \<times> 'b outcome" where
  "seq m f = (case m of
       (s, Returned x) \<Rightarrow> f x s
     | (s, Exited code) \<Rightarrow> (s, Exited code)
     | (s, Fault) \<Rightarrow> (s, Fault))"

section \<open>The functions of \<open>init.c\<close>\<close>

text \<open>
  \<open>init_mbuf_pools\<close> (lines 59-86). \<open>num_mbufs\<close> is an \<open>unsigned int\<close>: the value of the
  sizing expression is converted to 32 bits. The headers that declare \<open>num_clients\<close> and
  the two constants are not at hand, so the expression is evaluated on their values; with
  \<open>int\<close> operands C gives this value as long as it stays below \<open>2^31\<close>, with \<open>unsigned\<close>
  operands it wraps at \<open>2^32\<close> as the conversion does. The first statement reads
  \<open>ports->num_ports\<close>, which faults when \<open>ports\<close> is null. The log line has no effect
  and is left out.
\<close>

definition init_mbuf_pools :: "common \<Rightarrow> env \<Rightarrow> state \<Rightarrow> state \<times> int outcome" where
  "init_mbuf_pools c e s =
    (case ports s of
       None \<Rightarrow> (s, Fault)
     | Some p \<Rightarrow>
        (let num_mbufs = (word_of_nat ((num_clients s * MBUFS_PER_CLIENT c)
                            + (unat (num_ports p) * MBUFS_PER_PORT c)) :: 32 word)
         in if rte_eal_process_type e = RTE_PROC_SECONDARY then
              (let pool = rte_mempool_lookup e (PKTMBUF_POOL_NAME c);
                   s1 = emit (Mempool_lookup (PKTMBUF_POOL_NAME c) (pool \<noteq> None))
                          (s\<lparr>pktmbuf_pool := pool\<rparr>)
               in if pktmbuf_pool s1 = None
                  then rte_exit EXIT_FAILURE ''Cannot get mempool for mbufs'' s1
                  else (s1, Returned (if pktmbuf_pool s1 = None then 1 else 0)))
            else
              (let pool = rte_mempool_create e (PKTMBUF_POOL_NAME c) num_mbufs
                            (MBUF_SIZE c) (MBUF_CACHE_SIZE c) (sizeof_pktmbuf_pool_private c)
                            (rte_socket_id e) (NO_FLAGS c);
                   s1 = emit (Mempool_create (PKTMBUF_POOL_NAME c) num_mbufs (pool \<noteq> None))
                          (s\<lparr>pktmbuf_pool := pool\<rparr>)
               in (s1, Returned (if pktmbuf_pool s1 = None then 1 else 0)))))"

text \<open>
  The loop of \<open>init_shm_rings\<close> (lines 107-123), from index \<open>i\<close> on. Each round makes
  one call to the ring facility, stores the result in \<open>clients[i].rx_q\<close> and ends the
  process when it is null.
\<close>

function rings_loop :: "common \<Rightarrow> env \<Rightarrow> nat \<Rightarrow> state \<Rightarrow> state \<times> unit outcome" where
  "rings_loop c e i s =
    (if i < num_clients s then
       (let socket_id = rte_socket_id e;
            q_name = get_rx_queue_name c i;
            r = (if rte_eal_process_type e = RTE_PROC_SECONDARY
                 then rte_ring_lookup e q_name
                 else rte_ring_create e q_name CLIENT_QUEUE_RINGSIZE socket_id
                        {RING_F_SP_ENQ, RING_F_SC_DEQ});
            s1 = emit (if rte_eal_process_type e = RTE_PROC_SECONDARY
                       then Ring_lookup q_name (r \<noteq> None)
                       else Ring_create q_name CLIENT_QUEUE_RINGSIZE
                              {RING_F_SP_ENQ, RING_F_SC_DEQ} (r \<noteq> None)) s
        in case clients s1 of
             None \<Rightarrow> (s1, Fault)
           | Some cl \<Rightarrow>
              (let s2 = s1\<lparr>clients := Some (cl(i := (cl i)\<lparr>rx_q := r\<rparr>))\<rparr>
               in if r = None
                  then rte_exit EXIT_FAILURE ''Cannot create rx ring queue for client %u'' s2
                  else rings_loop c e (Suc i) s2))
     else (s, Returned ()))"
  by pat_completeness auto
termination
  by (relation "measure (\<lambda>(c, e, i, s). num_clients s - i)") (auto simp: emit_def)

text \<open>
  \<open>init_shm_rings\<close> (lines 93-126). The size of the block is \<open>sizeof(*clients) *
  num_clients\<close>, taken as a natural number; the allocation is made in either role.
\<close>

definition init_shm_rings :: "common \<Rightarrow> env \<Rightarrow> state \<Rightarrow> state \<times> int outcome" where
  "init_shm_rings c e s =
    (let blk = rte_malloc e ''client details'' (sizeof_client c * num_clients s) 0;
         s1 = emit (Malloc ''client details'' (sizeof_client c * num_clients s) (blk \<noteq> None))
                (s\<lparr>clients := blk\<rparr>)
     in if clients s1 = None
        then rte_exit EXIT_FAILURE ''Cannot allocate memory for client program details'' s1
        else seq (rings_loop c e 0 s1) (\<lambda>_ s2. (s2, Returned 0)))"

text \<open>
  Lines 150-165 of \<open>init\<close>: binding the global \<open>ports\<close> to the port-info region. A
  secondary looks the region up and takes it as it is; the primary reserves it and clears
  it with \<open>memset\<close>.
\<close>

definition bind_port_info :: "common \<Rightarrow> env \<Rightarrow> state \<Rightarrow> state \<times> unit outcome" where
  "bind_port_info c e s =
    (if rte_eal_process_type e = RTE_PROC_SECONDARY then
       (let mz = rte_memzone_lookup e (MZ_PORT_INFO c);
            s1 = emit (Memzone_lookup (MZ_PORT_INFO c) (mz \<noteq> None)) s
        in case mz of
             None \<Rightarrow> rte_exit EXIT_FAILURE ''Cannot get port info structure'' s1
           | Some region \<Rightarrow> (s1\<lparr>ports := Some region\<rparr>, Returned ()))
     else
       (let mz = rte_memzone_reserve e (MZ_PORT_INFO c) (sizeof_port_info c)
                   (rte_socket_id e) (NO_FLAGS c);
            s1 = emit (Memzone_reserve (MZ_PORT_INFO c) (sizeof_port_info c) (mz \<noteq> None)) s
        in case mz of
             None \<Rightarrow> rte_exit EXIT_FAILURE ''Cannot reserve memory zone for port information'' s1
           | Some region \<Rightarrow>
              (let s2 = emit (Memset_zero (sizeof_port_info c)) s1
               in (s2\<lparr>ports := Some zero_port_info\<rparr>, Returned ()))))"

text \<open>
  Lines 179-184 of \<open>init\<close>: the port loop, from \<open>count\<close> on. \<open>count\<close> is a \<open>uint16_t\<close>,
  and \<open>ports->num_ports\<close> is read again in every round.
\<close>

function init_ports_loop :: "env \<Rightarrow> 16 word \<Rightarrow> state \<Rightarrow> state \<times> unit outcome" where
  "init_ports_loop e count s =
    (case ports s of
       None \<Rightarrow> (s, Fault)
     | Some p \<Rightarrow>
        if count < num_ports p then
          (let retval = init_port e (id_arr p (unat count)) (pktmbuf_pool s);
               s1 = emit (Init_port (id_arr p (unat count)) retval) s
           in if retval \<noteq> 0
              then rte_exit EXIT_FAILURE ''Cannot initialise port %d'' s1
              else init_ports_loop e (count + 1) s1)
        else (s, Returned ()))"
  by pat_completeness auto
termination
proof (relation "measure (\<lambda>(e, count, s). 2 ^ 16 - unat count)")
  show "wf (measure (\<lambda>(e, count, s). 2 ^ 16 - unat count))"
    by simp
next
  fix e :: env and count :: "16 word" and s xa :: state and p :: port_info
  assume lt: "count < num_ports p"
  then have "unat count < unat (num_ports p)"
    by (simp add: word_less_nat_alt)
  moreover have "unat (num_ports p) < 2 ^ 16"
    using unsigned_less [of "num_ports p", where 'a = nat] by simp
  ultimately have n: "unat count + 1 < 2 ^ 16"
    by linarith
  then have "unat (count + 1) = unat count + 1"
    by (simp add: unat_word_ariths)
  with n show "((e, count + 1, xa), e, count, s) \<in> measure (\<lambda>(e, count, s). 2 ^ 16 - unat count)"
    by simp
qed

text \<open>
  \<open>init\<close> (lines 132-192). The mask \<open>~0x0\<close> of line 186 is the 32-bit word of all ones.
  The value \<open>init_shm_rings\<close> returns is dropped (line 189).
\<close>

definition init :: "common \<Rightarrow> env \<Rightarrow> int \<Rightarrow> string list \<Rightarrow> state \<Rightarrow> state \<times> int outcome" where
  "init c e argc argv s =
    (let retval = rte_eal_init e argc argv;
         s1 = emit (Eal_init retval) s
     in if retval < 0 then (s1, Returned (- 1))
        else
         (let argc' = argc - retval;
              argv' = drop (nat retval) argv;
              total_ports = rte_eth_dev_count e;
              s2 = emit Eth_dev_count s1
          in seq (bind_port_info c e s2) (\<lambda>_ s3.
               case ports s3 of
                 None \<Rightarrow> (s3, Fault)
               | Some p \<Rightarrow>
                  (case parse_app_args e total_ports argc' argv' p (num_clients s3) of
                     (retval, p', nc') \<Rightarrow>
                      (let s4 = emit (Parse_app_args retval)
                                  (s3\<lparr>ports := Some p', num_clients := nc'\<rparr>)
                       in if retval \<noteq> 0 then (s4, Returned (- 1))
                          else seq (init_mbuf_pools c e s4) (\<lambda>retval s5.
                            if retval \<noteq> 0
                            then rte_exit EXIT_FAILURE ''Cannot create needed mbuf pools'' s5
                            else seq (if rte_eal_process_type e = RTE_PROC_PRIMARY
                                      then init_ports_loop e 0 s5
                                      else (s5, Returned ())) (\<lambda>_ s6.
                              case ports s6 of
                                None \<Rightarrow> (s6, Fault)
                              | Some p6 \<Rightarrow>
                                 seq (init_shm_rings c e
                                        (emit (Check_all_ports_link_status (num_ports p6) (- 1)) s6))
                                   (\<lambda>_ s7. (s7, Returned 0)))))))))"

section \<open>Notions used to state the properties\<close>

text \<open>What the ring facility returns for client \<open>i\<close>, and the call as it is recorded.\<close>

definition ring_result :: "common \<Rightarrow> env \<Rightarrow> nat \<Rightarrow> ring option" where
  "ring_result c e i =
    (if rte_eal_process_type e = RTE_PROC_SECONDARY
     then rte_ring_lookup e (get_rx_queue_name c i)
     else rte_ring_create e (get_rx_queue_name c i) CLIENT_QUEUE_RINGSIZE (rte_socket_id e)
            {RING_F_SP_ENQ, RING_F_SC_DEQ})"

definition ring_event :: "common \<Rightarrow> env \<Rightarrow> nat \<Rightarrow> event" where
  "ring_event c e i =
    (if rte_eal_process_type e = RTE_PROC_SECONDARY
     then Ring_lookup (get_rx_queue_name c i) (ring_result c e i \<noteq> None)
     else Ring_create (get_rx_queue_name c i) CLIENT_QUEUE_RINGSIZE
            {RING_F_SP_ENQ, RING_F_SC_DEQ} (ring_result c e i \<noteq> None))"

text \<open>The size asked of \<open>rte_malloc\<close> for the client block.\<close>

definition malloc_size :: "common \<Rightarrow> state \<Rightarrow> nat" where
  "malloc_size c s = sizeof_client c * num_clients s"

text \<open>The capacity computed at lines 62-63 and the pool creation call of lines 78-82.\<close>

definition num_mbufs :: "common \<Rightarrow> state \<Rightarrow> port_info \<Rightarrow> 32 word" where
  "num_mbufs c s p = word_of_nat ((num_clients s * MBUFS_PER_CLIENT c)
                            + (unat (num_ports p) * MBUFS_PER_PORT c))"

definition pool_create :: "common \<Rightarrow> env \<Rightarrow> state \<Rightarrow> port_info \<Rightarrow> mempool option" where
  "pool_create c e s p = rte_mempool_create e (PKTMBUF_POOL_NAME c) (num_mbufs c s p)
                            (MBUF_SIZE c) (MBUF_CACHE_SIZE c) (sizeof_pktmbuf_pool_private c)
                            (rte_socket_id e) (NO_FLAGS c)"

text \<open>The reservation call of lines 158-159.\<close>

definition zone_reserve :: "common \<Rightarrow> env \<Rightarrow> port_info option" where
  "zone_reserve c e = rte_memzone_reserve e (MZ_PORT_INFO c) (sizeof_port_info c)
                   (rte_socket_id e) (NO_FLAGS c)"

text \<open>
  The pieces of \<open>init\<close>, so that it can be followed one stage at a time: the state after
  the link status call and after the argument parser, the port loop under its guard, and
  what remains of \<open>init\<close> after each stage (\<open>init_unfold\<close> below shows that they make up
  \<open>init\<close>).
\<close>

definition checked :: "state \<Rightarrow> port_info \<Rightarrow> state" where
  "checked s p = emit (Check_all_ports_link_status (num_ports p) (- 1)) s"

definition parsed :: "state \<Rightarrow> int \<Rightarrow> port_info \<Rightarrow> nat \<Rightarrow> state" where
  "parsed s rv p nc = emit (Parse_app_args rv) (s\<lparr>ports := Some p, num_clients := nc\<rparr>)"

definition port_stage :: "env \<Rightarrow> state \<Rightarrow> state \<times> unit outcome" where
  "port_stage e s = (if rte_eal_process_type e = RTE_PROC_PRIMARY
                     then init_ports_loop e 0 s else (s, Returned ()))"

definition tail_rings :: "common \<Rightarrow> env \<Rightarrow> state \<Rightarrow> state \<times> int outcome" where
  "tail_rings c e s =
    (case ports s of
       None \<Rightarrow> (s, Fault)
     | Some p \<Rightarrow> seq (init_shm_rings c e (checked s p)) (\<lambda>_ s7. (s7, Returned 0)))"

definition tail_ports :: "common \<Rightarrow> env \<Rightarrow> state \<Rightarrow> state \<times> int outcome" where
  "tail_ports c e s = seq (port_stage e s) (\<lambda>_. tail_rings c e)"

definition tail_pool :: "common \<Rightarrow> env \<Rightarrow> state \<Rightarrow> state \<times> int outcome" where
  "tail_pool c e s =
    seq (init_mbuf_pools c e s) (\<lambda>retval s5.
      if retval \<noteq> 0 then rte_exit EXIT_FAILURE ''Cannot create needed mbuf pools'' s5
      else tail_ports c e s5)"

definition tail_parse ::
  "common \<Rightarrow> env \<Rightarrow> int \<Rightarrow> string list \<Rightarrow> state \<Rightarrow> state \<times> int outcome" where
  "tail_parse c e argc argv s =
    (case ports s of
       None \<Rightarrow> (s, Fault)
     | Some p \<Rightarrow>
        (case parse_app_args e (rte_eth_dev_count e) argc argv p (num_clients s) of
           (retval, p', nc') \<Rightarrow>
             if retval \<noteq> 0 then (parsed s retval p' nc', Returned (- 1))
             else tail_pool c e (parsed s retval p' nc')))"

definition started :: "env \<Rightarrow> int \<Rightarrow> string list \<Rightarrow> state \<Rightarrow> state" where
  "started e argc argv s = emit Eth_dev_count (emit (Eal_init (rte_eal_init e argc argv)) s)"

text \<open>A call that came back with a null handle.\<close>

fun null_result :: "event \<Rightarrow> bool" where
  "null_result (Memzone_lookup n ok) = (\<not> ok)"
| "null_result (Memzone_reserve n sz ok) = (\<not> ok)"
| "null_result (Mempool_lookup n ok) = (\<not> ok)"
| "null_result (Mempool_create n cap ok) = (\<not> ok)"
| "null_result (Malloc t sz ok) = (\<not> ok)"
| "null_result (Ring_lookup n ok) = (\<not> ok)"
| "null_result (Ring_create n sz fl ok) = (\<not> ok)"
| "null_result ev = False"

text \<open>
  How a run may end: it returns and no call came back null, or it ends in \<open>rte_exit\<close>
  with \<open>EXIT_FAILURE\<close> right after the one call that did.
\<close>

definition ends_ok :: "event list \<Rightarrow> 'a outcome \<Rightarrow> bool" where
  "ends_ok evs out =
    (case out of
       Returned x \<Rightarrow> \<not> list_ex null_result evs
     | Exited code \<Rightarrow> code = EXIT_FAILURE
         \<and> (\<exists>pre ev msg. evs = pre @ [ev, Rte_exit EXIT_FAILURE msg]
               \<and> \<not> list_ex null_result pre)
     | Fault \<Rightarrow> False)"

text \<open>A run of \<open>init\<close> from process start: the calls it makes and how it ends.\<close>

definition calls :: "common \<Rightarrow> env \<Rightarrow> int \<Rightarrow> string list \<Rightarrow> event list" where
  "calls c e argc argv = trace (fst (init c e argc argv startup))"

definition result :: "common \<Rightarrow> env \<Rightarrow> int \<Rightarrow> string list \<Rightarrow> int outcome" where
  "result c e argc argv = snd (init c e argc argv startup)"

text \<open>
  Classes of calls: a port initialisation, the link status poll, what queue binding may
  call, a lookup that came back null, an allocation.
\<close>

fun is_init_port :: "event \<Rightarrow> bool" where
  "is_init_port (Init_port pid rv) = True"
| "is_init_port ev = False"

fun is_link_check :: "event \<Rightarrow> bool" where
  "is_link_check (Check_all_ports_link_status n m) = True"
| "is_link_check ev = False"

fun is_rings_event :: "event \<Rightarrow> bool" where
  "is_rings_event (Malloc t sz ok) = True"
| "is_rings_event (Ring_lookup n ok) = True"
| "is_rings_event (Ring_create n sz fl ok) = True"
| "is_rings_event (Rte_exit code msg) = True"
| "is_rings_event ev = False"


fun is_malloc :: "event \<Rightarrow> bool" where
  "is_malloc (Malloc t sz ok) = True"
| "is_malloc ev = False"


text \<open>The calls of a successful binding of the port-info region (lines 150-165).\<close>

definition bind_calls :: "common \<Rightarrow> env \<Rightarrow> event list" where
  "bind_calls c e =
    (if rte_eal_process_type e = RTE_PROC_SECONDARY
     then [Memzone_lookup (MZ_PORT_INFO c) True]
     else [Memzone_reserve (MZ_PORT_INFO c) (sizeof_port_info c) True,
           Memset_zero (sizeof_port_info c)])"

section \<open>Example configurations\<close>

text \<open>
  A primary and a secondary with two ports and two clients. The allocator refuses a block
  of size zero and the secondary finds the region, the pool and both rings.
\<close>

definition ex_common :: common where
  "ex_common = \<lparr>MBUFS_PER_CLIENT = 1536, MBUFS_PER_PORT = 1536, MBUF_SIZE = 2176,
     MBUF_CACHE_SIZE = 512, NO_FLAGS = 0, MZ_PORT_INFO = ''port_info'',
     PKTMBUF_POOL_NAME = ''mbuf_pool'',
     get_rx_queue_name = (\<lambda>i. ''rx_'' @ replicate i CHR ''i''),
     sizeof_port_info = 72, sizeof_client = 64, sizeof_pktmbuf_pool_private = 8\<rparr>"

definition ex_published :: port_info where
  "ex_published = \<lparr>num_ports = 2, id_arr = (\<lambda>i. of_nat i)\<rparr>"

definition ex_primary :: env where
  "ex_primary = \<lparr>rte_eal_init = (\<lambda>argc argv. 1),
     rte_eal_process_type = RTE_PROC_PRIMARY,
     rte_eth_dev_count = 2,
     rte_socket_id = 0,
     rte_memzone_lookup = (\<lambda>n. None),
     rte_memzone_reserve = (\<lambda>n sz sock fl. Some \<lparr>num_ports = 7, id_arr = (\<lambda>i. 9)\<rparr>),
     parse_app_args = (\<lambda>total argc argv p nc.
        (if argc = 2 then 0 else - 1, p\<lparr>num_ports := 2, id_arr := (\<lambda>i. of_nat i)\<rparr>, 2)),
     rte_mempool_lookup = (\<lambda>n. None),
     rte_mempool_create = (\<lambda>n cap elt cache priv sock fl. Some 1),
     init_port = (\<lambda>pid pool. 0),
     rte_malloc = (\<lambda>t sz al. if sz = 0 then None else Some (\<lambda>i. \<lparr>rx_q = Some 99\<rparr>)),
     rte_ring_lookup = (\<lambda>n. None),
     rte_ring_create = (\<lambda>n sz sock fl. Some (10 + length n))\<rparr>"

definition ex_secondary :: env where
  "ex_secondary = ex_primary\<lparr>
     rte_eal_process_type := RTE_PROC_SECONDARY,
     rte_memzone_lookup := (\<lambda>n. if n = ''port_info'' then Some ex_published else None),
     parse_app_args := (\<lambda>total argc argv p nc. (if argc = 2 then 0 else - 1, p, 2)),
     rte_mempool_lookup := (\<lambda>n. if n = ''mbuf_pool'' then Some 1 else None),
     rte_ring_lookup := (\<lambda>n. if n = ''rx_'' \<or> n = ''rx_i'' then Some (10 + length n) else None)\<rparr>"

definition ex_argv :: "string list" where
  "ex_argv = [''server'', ''--'', ''-n 2'']"

text \<open>
  Variations: a secondary that finds the ring of client 0 only, a primary whose execution
  environment fails to initialise, and a primary whose allocator gives a block of any size.
\<close>

definition ex_racing :: env where
  "ex_racing = ex_secondary\<lparr>rte_ring_lookup := (\<lambda>n. if n = ''rx_'' then Some 14 else None)\<rparr>"

definition ex_no_eal :: env where
  "ex_no_eal = ex_primary\<lparr>rte_eal_init := (\<lambda>argc argv. - 1)\<rparr>"

definition ex_lenient :: env where
  "ex_lenient = ex_primary\<lparr>rte_malloc := (\<lambda>t sz al. Some (\<lambda>i. \<lparr>rx_q = None\<rparr>))\<rparr>"

section \<open>Auxiliary lemmas\<close>

lemma emit_simps [simp]:
  "trace (emit ev s) = trace s @ [ev]"
  "clients (emit ev s) = clients s"
  "pktmbuf_pool (emit ev s) = pktmbuf_pool s"
  "ports (emit ev s) = ports s"
  "num_clients (emit ev s) = num_clients s"
  by (simp_all add: emit_def)

lemma seq_simps [simp]:
  "seq (s, Returned x) f = f x s"
  "seq (s, Exited code) f = (s, Exited code)"
  "seq (s, Fault) f = (s, Fault)"
  by (simp_all add: seq_def)

declare rings_loop.simps [simp del]

lemma rings_loop_done: "\<not> i < num_clients s \<Longrightarrow> rings_loop c e i s = (s, Returned ())"
  by (subst rings_loop.simps) simp

lemma rings_loop_null:
  "i < num_clients s \<Longrightarrow> clients s = None \<Longrightarrow>
     rings_loop c e i s = (emit (ring_event c e i) s, Fault)"
  by (subst rings_loop.simps) (simp add: Let_def ring_event_def ring_result_def)

lemma rings_loop_fail:
  "i < num_clients s \<Longrightarrow> clients s = Some cl \<Longrightarrow> ring_result c e i = None \<Longrightarrow>
     rings_loop c e i s =
       rte_exit EXIT_FAILURE ''Cannot create rx ring queue for client %u''
         ((emit (ring_event c e i) s)\<lparr>clients := Some (cl(i := (cl i)\<lparr>rx_q := None\<rparr>))\<rparr>)"
  by (subst rings_loop.simps) (simp add: Let_def ring_event_def ring_result_def)

lemma rings_loop_step:
  "i < num_clients s \<Longrightarrow> clients s = Some cl \<Longrightarrow> ring_result c e i = Some r \<Longrightarrow>
     rings_loop c e i s =
       rings_loop c e (Suc i)
         ((emit (ring_event c e i) s)\<lparr>clients := Some (cl(i := (cl i)\<lparr>rx_q := Some r\<rparr>))\<rparr>)"
  by (subst rings_loop.simps) (simp add: Let_def ring_event_def ring_result_def)

lemma rings_loop_returned:
  "clients s = Some cl \<Longrightarrow> rings_loop c e i s = (s', Returned u) \<Longrightarrow>
     trace s' = trace s @ map (ring_event c e) [i..<num_clients s]
     \<and> (\<forall>j. i \<le> j \<and> j < num_clients s \<longrightarrow> ring_result c e j \<noteq> None)
     \<and> num_clients s' = num_clients s \<and> ports s' = ports s
     \<and> pktmbuf_pool s' = pktmbuf_pool s
     \<and> (\<exists>cl'. clients s' = Some cl'
            \<and> (\<forall>j. i \<le> j \<and> j < num_clients s \<longrightarrow> rx_q (cl' j) = ring_result c e j)
            \<and> (\<forall>j<i. cl' j = cl j))"
proof (induction "num_clients s - i" arbitrary: i s cl)
  case 0
  then have "\<not> i < num_clients s" by simp
  with 0 show ?case by (auto simp: rings_loop_done)
next
  case (Suc k)
  then have lt: "i < num_clients s" by simp
  show ?case
  proof (cases "ring_result c e i")
    case None
    with Suc.prems lt show ?thesis
      by (simp add: rings_loop_fail rte_exit_def)
  next
    case (Some r)
    let ?s1 = "(emit (ring_event c e i) s)\<lparr>clients := Some (cl(i := (cl i)\<lparr>rx_q := Some r\<rparr>))\<rparr>"
    have run: "rings_loop c e (Suc i) ?s1 = (s', Returned u)"
      using Suc.prems lt Some by (simp add: rings_loop_step)
    have k: "k = num_clients ?s1 - Suc i"
      using Suc.hyps(2) by simp
    have cl1: "clients ?s1 = Some (cl(i := (cl i)\<lparr>rx_q := Some r\<rparr>))"
      by simp
    note ih = Suc.hyps(1) [OF k cl1 run]
    from ih obtain cl' where cl':
      "clients s' = Some cl'"
      "\<forall>j. Suc i \<le> j \<and> j < num_clients s \<longrightarrow> rx_q (cl' j) = ring_result c e j"
      "\<forall>j<Suc i. cl' j = (cl(i := (cl i)\<lparr>rx_q := Some r\<rparr>)) j"
      by auto
    have tr: "trace s' = trace s @ map (ring_event c e) [i..<num_clients s]"
      using ih lt by (simp add: upt_conv_Cons)
    have res: "\<forall>j. i \<le> j \<and> j < num_clients s \<longrightarrow> ring_result c e j \<noteq> None"
    proof (intro allI impI)
      fix j assume j: "i \<le> j \<and> j < num_clients s"
      show "ring_result c e j \<noteq> None"
      proof (cases "j = i")
        case True
        with Some show ?thesis by simp
      next
        case False
        with j have "Suc i \<le> j \<and> j < num_clients ?s1" by simp
        with ih show ?thesis by blast
      qed
    qed
    have rx: "\<forall>j. i \<le> j \<and> j < num_clients s \<longrightarrow> rx_q (cl' j) = ring_result c e j"
    proof (intro allI impI)
      fix j assume j: "i \<le> j \<and> j < num_clients s"
      show "rx_q (cl' j) = ring_result c e j"
      proof (cases "j = i")
        case True
        with cl'(3) Some show ?thesis by simp
      next
        case False
        with j cl'(2) show ?thesis by simp
      qed
    qed
    have old: "\<forall>j<i. cl' j = cl j"
      using cl'(3) by simp
    from ih tr res rx old cl'(1) show ?thesis by simp
  qed
qed

lemma rings_loop_exited:
  "clients s = Some cl \<Longrightarrow> rings_loop c e i s = (s', Exited x) \<Longrightarrow>
     x = EXIT_FAILURE
     \<and> (\<exists>k. i \<le> k \<and> k < num_clients s \<and> ring_result c e k = None
            \<and> (\<forall>j. i \<le> j \<and> j < k \<longrightarrow> ring_result c e j \<noteq> None)
            \<and> trace s' = trace s @ map (ring_event c e) [i..<k]
                 @ [ring_event c e k,
                    Rte_exit EXIT_FAILURE ''Cannot create rx ring queue for client %u''])"
proof (induction "num_clients s - i" arbitrary: i s cl)
  case 0
  then have "\<not> i < num_clients s" by simp
  with 0 show ?case by (simp add: rings_loop_done)
next
  case (Suc k)
  then have lt: "i < num_clients s" by simp
  show ?case
  proof (cases "ring_result c e i")
    case None
    with Suc.prems lt have
      "x = EXIT_FAILURE"
      "trace s' = trace s @ map (ring_event c e) [i..<i]
         @ [ring_event c e i, Rte_exit EXIT_FAILURE ''Cannot create rx ring queue for client %u'']"
      by (auto simp: rings_loop_fail rte_exit_def)
    with None lt show ?thesis
      by (intro conjI exI [of _ i]) auto
  next
    case (Some r)
    let ?s1 = "(emit (ring_event c e i) s)\<lparr>clients := Some (cl(i := (cl i)\<lparr>rx_q := Some r\<rparr>))\<rparr>"
    have run: "rings_loop c e (Suc i) ?s1 = (s', Exited x)"
      using Suc.prems lt Some by (simp add: rings_loop_step)
    have k: "k = num_clients ?s1 - Suc i"
      using Suc.hyps(2) by simp
    have cl1: "clients ?s1 = Some (cl(i := (cl i)\<lparr>rx_q := Some r\<rparr>))"
      by simp
    from Suc.hyps(1) [OF k cl1 run] obtain m where m:
      "x = EXIT_FAILURE" "Suc i \<le> m" "m < num_clients s" "ring_result c e m = None"
      "\<forall>j. Suc i \<le> j \<and> j < m \<longrightarrow> ring_result c e j \<noteq> None"
      "trace s' = trace ?s1 @ map (ring_event c e) [Suc i..<m]
         @ [ring_event c e m, Rte_exit EXIT_FAILURE ''Cannot create rx ring queue for client %u'']"
      by auto
    have pre: "\<forall>j. i \<le> j \<and> j < m \<longrightarrow> ring_result c e j \<noteq> None"
    proof (intro allI impI)
      fix j assume j: "i \<le> j \<and> j < m"
      show "ring_result c e j \<noteq> None"
      proof (cases "j = i")
        case True
        with Some show ?thesis by simp
      next
        case False
        with j m(5) show ?thesis by simp
      qed
    qed
    have tr: "trace s' = trace s @ map (ring_event c e) [i..<m]
         @ [ring_event c e m, Rte_exit EXIT_FAILURE ''Cannot create rx ring queue for client %u'']"
      using m(2,6) by (simp add: upt_conv_Cons)
    from m(1,2,3,4) pre tr show ?thesis
      by (intro conjI exI [of _ m]) auto
  qed
qed

lemma rings_loop_no_fault:
  "clients s = Some cl \<Longrightarrow> snd (rings_loop c e i s) \<noteq> Fault"
proof (induction "num_clients s - i" arbitrary: i s cl)
  case 0
  then have "\<not> i < num_clients s" by simp
  then show ?case by (simp add: rings_loop_done)
next
  case (Suc k)
  then have lt: "i < num_clients s" by simp
  show ?case
  proof (cases "ring_result c e i")
    case None
    with Suc.prems lt show ?thesis
      by (simp add: rings_loop_fail rte_exit_def)
  next
    case (Some r)
    let ?s1 = "(emit (ring_event c e i) s)\<lparr>clients := Some (cl(i := (cl i)\<lparr>rx_q := Some r\<rparr>))\<rparr>"
    have k: "k = num_clients ?s1 - Suc i"
      using Suc.hyps(2) by simp
    have cl1: "clients ?s1 = Some (cl(i := (cl i)\<lparr>rx_q := Some r\<rparr>))"
      by simp
    from Suc.hyps(1) [OF k cl1] Suc.prems lt Some show ?thesis
      by (simp add: rings_loop_step)
  qed
qed

lemma init_shm_rings_null:
  "rte_malloc e ''client details'' (malloc_size c s) 0 = None \<Longrightarrow>
     init_shm_rings c e s =
       rte_exit EXIT_FAILURE ''Cannot allocate memory for client program details''
         (emit (Malloc ''client details'' (malloc_size c s) False) (s\<lparr>clients := None\<rparr>))"
  by (simp add: init_shm_rings_def malloc_size_def Let_def)

lemma init_shm_rings_alloc:
  "rte_malloc e ''client details'' (malloc_size c s) 0 = Some blk \<Longrightarrow>
     init_shm_rings c e s =
       seq (rings_loop c e 0
              (emit (Malloc ''client details'' (malloc_size c s) True) (s\<lparr>clients := Some blk\<rparr>)))
         (\<lambda>_ s2. (s2, Returned 0))"
  by (simp add: init_shm_rings_def malloc_size_def Let_def)

lemma init_shm_rings_returned:
  assumes "init_shm_rings c e s = (s', Returned r)"
  shows "r = 0 \<and> rte_malloc e ''client details'' (malloc_size c s) 0 \<noteq> None
     \<and> trace s' = trace s @ Malloc ''client details'' (malloc_size c s) True
                     # map (ring_event c e) [0..<num_clients s]
     \<and> (\<forall>j<num_clients s. ring_result c e j \<noteq> None)
     \<and> num_clients s' = num_clients s \<and> ports s' = ports s
     \<and> pktmbuf_pool s' = pktmbuf_pool s
     \<and> (\<exists>cl'. clients s' = Some cl' \<and> (\<forall>j<num_clients s. rx_q (cl' j) = ring_result c e j))"
proof (cases "rte_malloc e ''client details'' (malloc_size c s) 0")
  case None
  with assms show ?thesis
    by (simp add: init_shm_rings_null rte_exit_def)
next
  case (Some blk)
  let ?s1 = "emit (Malloc ''client details'' (malloc_size c s) True) (s\<lparr>clients := Some blk\<rparr>)"
  obtain s2 out where run: "rings_loop c e 0 ?s1 = (s2, out)"
    by force
  with assms Some have "out = Returned ()" "s2 = s'" "r = 0"
    by (cases out; simp add: init_shm_rings_alloc)+
  with run have run': "rings_loop c e 0 ?s1 = (s', Returned ())" by simp
  have cl1: "clients ?s1 = Some blk" by simp
  from rings_loop_returned [OF cl1 run'] Some \<open>r = 0\<close> show ?thesis
    by auto
qed

lemma init_shm_rings_exited:
  assumes "init_shm_rings c e s = (s', Exited x)"
  shows "x = EXIT_FAILURE
     \<and> ((rte_malloc e ''client details'' (malloc_size c s) 0 = None
          \<and> trace s' = trace s @ [Malloc ''client details'' (malloc_size c s) False,
               Rte_exit EXIT_FAILURE ''Cannot allocate memory for client program details''])
        \<or> (rte_malloc e ''client details'' (malloc_size c s) 0 \<noteq> None
            \<and> (\<exists>k<num_clients s. ring_result c e k = None
                 \<and> (\<forall>j<k. ring_result c e j \<noteq> None)
                 \<and> trace s' = trace s @ Malloc ''client details'' (malloc_size c s) True
                      # map (ring_event c e) [0..<k]
                      @ [ring_event c e k,
                         Rte_exit EXIT_FAILURE ''Cannot create rx ring queue for client %u''])))"
proof (cases "rte_malloc e ''client details'' (malloc_size c s) 0")
  case None
  with assms show ?thesis
    by (auto simp: init_shm_rings_null rte_exit_def)
next
  case (Some blk)
  let ?s1 = "emit (Malloc ''client details'' (malloc_size c s) True) (s\<lparr>clients := Some blk\<rparr>)"
  obtain s2 out where run: "rings_loop c e 0 ?s1 = (s2, out)"
    by force
  with assms Some have "out = Exited x" "s2 = s'"
    by (cases out; simp add: init_shm_rings_alloc)+
  with run have run': "rings_loop c e 0 ?s1 = (s', Exited x)" by simp
  have cl1: "clients ?s1 = Some blk" by simp
  from rings_loop_exited [OF cl1 run'] Some show ?thesis
    by auto
qed

lemma init_shm_rings_no_fault: "snd (init_shm_rings c e s) \<noteq> Fault"
proof (cases "rte_malloc e ''client details'' (malloc_size c s) 0")
  case None
  then show ?thesis
    by (simp add: init_shm_rings_null rte_exit_def)
next
  case (Some blk)
  let ?s1 = "emit (Malloc ''client details'' (malloc_size c s) True) (s\<lparr>clients := Some blk\<rparr>)"
  have cl1: "clients ?s1 = Some blk" by simp
  obtain s2 out where run: "rings_loop c e 0 ?s1 = (s2, out)"
    by force
  with rings_loop_no_fault [OF cl1, of c e 0] have "out \<noteq> Fault" by simp
  with run Some show ?thesis
    by (cases out) (simp_all add: init_shm_rings_alloc)
qed

lemma bind_port_info_no_fault: "snd (bind_port_info c e s) \<noteq> Fault"
  by (simp add: bind_port_info_def Let_def rte_exit_def split: option.splits)

lemma bind_port_info_returned:
  assumes "bind_port_info c e s = (s', Returned u)"
  shows "(\<exists>region. ports s' = Some region) \<and> clients s' = clients s
     \<and> pktmbuf_pool s' = pktmbuf_pool s \<and> num_clients s' = num_clients s
     \<and> (if rte_eal_process_type e = RTE_PROC_SECONDARY
        then ports s' = rte_memzone_lookup e (MZ_PORT_INFO c)
             \<and> trace s' = trace s @ [Memzone_lookup (MZ_PORT_INFO c) True]
        else zone_reserve c e \<noteq> None \<and> ports s' = Some zero_port_info
             \<and> trace s' = trace s @ [Memzone_reserve (MZ_PORT_INFO c) (sizeof_port_info c) True,
                                      Memset_zero (sizeof_port_info c)])"
  using assms
  by (auto simp: bind_port_info_def zone_reserve_def Let_def rte_exit_def
      split: option.splits if_splits)

lemma bind_port_info_exited:
  assumes "bind_port_info c e s = (s', Exited x)"
  shows "x = EXIT_FAILURE \<and> clients s' = clients s
     \<and> pktmbuf_pool s' = pktmbuf_pool s \<and> num_clients s' = num_clients s
     \<and> (if rte_eal_process_type e = RTE_PROC_SECONDARY
        then rte_memzone_lookup e (MZ_PORT_INFO c) = None
             \<and> trace s' = trace s @ [Memzone_lookup (MZ_PORT_INFO c) False,
                                      Rte_exit EXIT_FAILURE ''Cannot get port info structure'']
        else zone_reserve c e = None
             \<and> trace s' = trace s @ [Memzone_reserve (MZ_PORT_INFO c) (sizeof_port_info c) False,
                  Rte_exit EXIT_FAILURE ''Cannot reserve memory zone for port information''])"
  using assms
  by (auto simp: bind_port_info_def zone_reserve_def Let_def rte_exit_def
      split: option.splits if_splits)

lemma init_mbuf_pools_no_fault:
  "ports s = Some p \<Longrightarrow> snd (init_mbuf_pools c e s) \<noteq> Fault"
  by (simp add: init_mbuf_pools_def Let_def rte_exit_def)

lemma init_mbuf_pools_returned:
  assumes "ports s = Some p" and "init_mbuf_pools c e s = (s', Returned rv)"
  shows "ports s' = ports s \<and> clients s' = clients s \<and> num_clients s' = num_clients s
     \<and> (rv = 0 \<or> rv = 1) \<and> (rv = 0 \<longleftrightarrow> pktmbuf_pool s' \<noteq> None)
     \<and> (if rte_eal_process_type e = RTE_PROC_SECONDARY
        then rv = 0 \<and> pktmbuf_pool s' = rte_mempool_lookup e (PKTMBUF_POOL_NAME c)
             \<and> trace s' = trace s @ [Mempool_lookup (PKTMBUF_POOL_NAME c) True]
        else pktmbuf_pool s' = pool_create c e s p
             \<and> trace s' = trace s @ [Mempool_create (PKTMBUF_POOL_NAME c) (num_mbufs c s p)
                                        (pool_create c e s p \<noteq> None)])"
  using assms
  by (auto simp: init_mbuf_pools_def pool_create_def num_mbufs_def Let_def rte_exit_def
      split: if_splits)

lemma init_mbuf_pools_exited:
  assumes "ports s = Some p" and "init_mbuf_pools c e s = (s', Exited x)"
  shows "x = EXIT_FAILURE \<and> ports s' = ports s \<and> clients s' = clients s
     \<and> num_clients s' = num_clients s \<and> pktmbuf_pool s' = None
     \<and> rte_eal_process_type e = RTE_PROC_SECONDARY
     \<and> rte_mempool_lookup e (PKTMBUF_POOL_NAME c) = None
     \<and> trace s' = trace s @ [Mempool_lookup (PKTMBUF_POOL_NAME c) False,
                              Rte_exit EXIT_FAILURE ''Cannot get mempool for mbufs'']"
  using assms
  by (auto simp: init_mbuf_pools_def Let_def rte_exit_def split: if_splits)

declare init_ports_loop.simps [simp del]

lemma unat_count_succ:
  fixes count :: "16 word"
  assumes "count < m"
  shows "unat (count + 1) = Suc (unat count)"
proof -
  from assms have "unat count < unat m"
    by (simp add: word_less_nat_alt)
  moreover have "unat m < 2 ^ 16"
    using unsigned_less [of m, where 'a = nat] by simp
  ultimately have "unat count + 1 < 2 ^ 16"
    by linarith
  then show ?thesis
    by (simp add: unat_word_ariths)
qed

lemma init_ports_loop_spec:
  "ports s = Some p \<Longrightarrow> init_ports_loop e count s = (s', out) \<Longrightarrow>
     \<exists>evs. s' = s\<lparr>trace := trace s @ evs\<rparr>
       \<and> ((out = Returned () \<and> list_all is_init_port evs)
          \<or> (out = Exited EXIT_FAILURE
              \<and> (\<exists>pre pid rv. evs = pre @ [Init_port pid rv,
                                    Rte_exit EXIT_FAILURE ''Cannot initialise port %d'']
                   \<and> list_all is_init_port pre)))"
proof (induction "unat (num_ports p) - unat count" arbitrary: count s)
  case 0
  then have "\<not> count < num_ports p"
    by (simp add: word_less_nat_alt)
  with 0 have "s' = s" "out = Returned ()"
    by (simp_all add: init_ports_loop.simps)
  then show ?case
    by (intro exI [of _ "[]"]) simp
next
  case (Suc k)
  then have lt: "count < num_ports p"
    by (simp add: word_less_nat_alt)
  let ?pid = "id_arr p (unat count)"
  let ?rv = "init_port e ?pid (pktmbuf_pool s)"
  let ?s1 = "emit (Init_port ?pid ?rv) s"
  show ?case
  proof (cases "?rv = 0")
    case False
    with Suc.prems lt have "s' = s\<lparr>trace := trace s @ [Init_port ?pid ?rv,
          Rte_exit EXIT_FAILURE ''Cannot initialise port %d'']\<rparr>" "out = Exited EXIT_FAILURE"
      by (simp_all add: init_ports_loop.simps [of e count s] Let_def rte_exit_def emit_def)
    then show ?thesis
      by (intro exI [of _ "[Init_port ?pid ?rv,
          Rte_exit EXIT_FAILURE ''Cannot initialise port %d'']"]) auto
  next
    case True
    with Suc.prems lt have run: "init_ports_loop e (count + 1) ?s1 = (s', out)"
      by (simp add: init_ports_loop.simps [of e count s] Let_def)
    have k: "k = unat (num_ports p) - unat (count + 1)"
      using Suc.hyps(2) unat_count_succ [OF lt] by simp
    have p1: "ports ?s1 = Some p"
      using Suc.prems by simp
    from Suc.hyps(1) [OF k p1 run] obtain evs where evs:
      "s' = ?s1\<lparr>trace := trace ?s1 @ evs\<rparr>"
      "(out = Returned () \<and> list_all is_init_port evs)
          \<or> (out = Exited EXIT_FAILURE
              \<and> (\<exists>pre pid rv. evs = pre @ [Init_port pid rv,
                                    Rte_exit EXIT_FAILURE ''Cannot initialise port %d'']
                   \<and> list_all is_init_port pre))"
      by blast
    have s': "s' = s\<lparr>trace := trace s @ (Init_port ?pid ?rv # evs)\<rparr>"
      using evs(1) by (simp add: emit_def)
    from evs(2) show ?thesis
    proof
      assume "out = Returned () \<and> list_all is_init_port evs"
      with s' show ?thesis
        by (intro exI [of _ "Init_port ?pid ?rv # evs"]) simp
    next
      assume "out = Exited EXIT_FAILURE
              \<and> (\<exists>pre pid rv. evs = pre @ [Init_port pid rv,
                                    Rte_exit EXIT_FAILURE ''Cannot initialise port %d'']
                   \<and> list_all is_init_port pre)"
      then obtain pre pid rv where pre: "out = Exited EXIT_FAILURE"
        "evs = pre @ [Init_port pid rv, Rte_exit EXIT_FAILURE ''Cannot initialise port %d'']"
        "list_all is_init_port pre"
        by blast
      have "Init_port ?pid ?rv # evs = (Init_port ?pid ?rv # pre)
              @ [Init_port pid rv, Rte_exit EXIT_FAILURE ''Cannot initialise port %d'']"
        using pre(2) by simp
      moreover have "list_all is_init_port (Init_port ?pid ?rv # pre)"
        using pre(3) by simp
      ultimately show ?thesis
        using s' pre(1) by (intro exI [of _ "Init_port ?pid ?rv # evs"]) blast
    qed
  qed
qed

lemma init_unfold:
  "init c e argc argv s =
    (if rte_eal_init e argc argv < 0
     then (emit (Eal_init (rte_eal_init e argc argv)) s, Returned (- 1))
     else seq (bind_port_info c e (started e argc argv s))
            (\<lambda>_. tail_parse c e (argc - rte_eal_init e argc argv)
                    (drop (nat (rte_eal_init e argc argv)) argv)))"
  unfolding init_def tail_parse_def [abs_def] tail_pool_def [abs_def]
      tail_ports_def [abs_def] tail_rings_def [abs_def] port_stage_def [abs_def]
      checked_def parsed_def started_def Let_def
  by (rule refl)

lemma seq_cases [consumes 1, case_names ret exit fault]:
  assumes "seq m f = (s', out)"
  obtains s1 x where "m = (s1, Returned x)" and "f x s1 = (s', out)"
  | x where "m = (s', Exited x)" and "out = Exited x"
  | "m = (s', Fault)" and "out = Fault"
proof (cases m)
  case (Pair s1 o1)
  with assms that show thesis
    by (cases o1) simp_all
qed

lemma port_stage_spec:
  assumes "ports s = Some p" and "port_stage e s = (s', out)"
  shows "\<exists>evs. s' = s\<lparr>trace := trace s @ evs\<rparr>
       \<and> (rte_eal_process_type e \<noteq> RTE_PROC_PRIMARY \<longrightarrow> evs = [] \<and> out = Returned ())
       \<and> ((out = Returned () \<and> list_all is_init_port evs)
          \<or> (out = Exited EXIT_FAILURE
              \<and> (\<exists>pre pid rv. evs = pre @ [Init_port pid rv,
                                    Rte_exit EXIT_FAILURE ''Cannot initialise port %d'']
                   \<and> list_all is_init_port pre)))"
proof (cases "rte_eal_process_type e = RTE_PROC_PRIMARY")
  case True
  with assms(2) have "init_ports_loop e 0 s = (s', out)"
    by (simp add: port_stage_def)
  from init_ports_loop_spec [OF assms(1) this] True show ?thesis
    by simp
next
  case False
  with assms(2) have "s' = s" "out = Returned ()"
    by (simp_all add: port_stage_def)
  with False show ?thesis
    by (intro exI [of _ "[]"]) simp
qed

lemma init_cases [consumes 1, case_names eal_fail bind_exit parse_fail pool_exit pool_fail
    port_exit rings_exit ok]:
  assumes run: "init c e argc argv s = (s', out)"
  obtains
    "rte_eal_init e argc argv < 0"
    and "s' = emit (Eal_init (rte_eal_init e argc argv)) s" and "out = Returned (- 1)"
  | "0 \<le> rte_eal_init e argc argv"
    and "bind_port_info c e (started e argc argv s) = (s', Exited EXIT_FAILURE)"
    and "out = Exited EXIT_FAILURE"
  | s3 p rv p' nc' where "0 \<le> rte_eal_init e argc argv"
    and "bind_port_info c e (started e argc argv s) = (s3, Returned ())"
    and "ports s3 = Some p"
    and "parse_app_args e (rte_eth_dev_count e) (argc - rte_eal_init e argc argv)
           (drop (nat (rte_eal_init e argc argv)) argv) p (num_clients s3) = (rv, p', nc')"
    and "rv \<noteq> 0" and "s' = parsed s3 rv p' nc'" and "out = Returned (- 1)"
  | s3 p p' nc' where "0 \<le> rte_eal_init e argc argv"
    and "bind_port_info c e (started e argc argv s) = (s3, Returned ())"
    and "ports s3 = Some p"
    and "parse_app_args e (rte_eth_dev_count e) (argc - rte_eal_init e argc argv)
           (drop (nat (rte_eal_init e argc argv)) argv) p (num_clients s3) = (0, p', nc')"
    and "init_mbuf_pools c e (parsed s3 0 p' nc') = (s', Exited EXIT_FAILURE)"
    and "out = Exited EXIT_FAILURE"
  | s3 p p' nc' s5 where "0 \<le> rte_eal_init e argc argv"
    and "bind_port_info c e (started e argc argv s) = (s3, Returned ())"
    and "ports s3 = Some p"
    and "parse_app_args e (rte_eth_dev_count e) (argc - rte_eal_init e argc argv)
           (drop (nat (rte_eal_init e argc argv)) argv) p (num_clients s3) = (0, p', nc')"
    and "init_mbuf_pools c e (parsed s3 0 p' nc') = (s5, Returned 1)"
    and "s' = emit (Rte_exit EXIT_FAILURE ''Cannot create needed mbuf pools'') s5"
    and "out = Exited EXIT_FAILURE"
  | s3 p p' nc' s5 where "0 \<le> rte_eal_init e argc argv"
    and "bind_port_info c e (started e argc argv s) = (s3, Returned ())"
    and "ports s3 = Some p"
    and "parse_app_args e (rte_eth_dev_count e) (argc - rte_eal_init e argc argv)
           (drop (nat (rte_eal_init e argc argv)) argv) p (num_clients s3) = (0, p', nc')"
    and "init_mbuf_pools c e (parsed s3 0 p' nc') = (s5, Returned 0)"
    and "port_stage e s5 = (s', Exited EXIT_FAILURE)"
    and "out = Exited EXIT_FAILURE"
  | s3 p p' nc' s5 s6 where "0 \<le> rte_eal_init e argc argv"
    and "bind_port_info c e (started e argc argv s) = (s3, Returned ())"
    and "ports s3 = Some p"
    and "parse_app_args e (rte_eth_dev_count e) (argc - rte_eal_init e argc argv)
           (drop (nat (rte_eal_init e argc argv)) argv) p (num_clients s3) = (0, p', nc')"
    and "init_mbuf_pools c e (parsed s3 0 p' nc') = (s5, Returned 0)"
    and "port_stage e s5 = (s6, Returned ())"
    and "init_shm_rings c e (checked s6 p') = (s', Exited EXIT_FAILURE)"
    and "out = Exited EXIT_FAILURE"
  | s3 p p' nc' s5 s6 where "0 \<le> rte_eal_init e argc argv"
    and "bind_port_info c e (started e argc argv s) = (s3, Returned ())"
    and "ports s3 = Some p"
    and "parse_app_args e (rte_eth_dev_count e) (argc - rte_eal_init e argc argv)
           (drop (nat (rte_eal_init e argc argv)) argv) p (num_clients s3) = (0, p', nc')"
    and "init_mbuf_pools c e (parsed s3 0 p' nc') = (s5, Returned 0)"
    and "port_stage e s5 = (s6, Returned ())"
    and "init_shm_rings c e (checked s6 p') = (s', Returned 0)"
    and "out = Returned 0"
proof (cases "rte_eal_init e argc argv < 0")
  case True
  with run that(1) show thesis
    by (simp add: init_unfold)
next
  case False
  then have r0: "0 \<le> rte_eal_init e argc argv" by simp
  from run False have "seq (bind_port_info c e (started e argc argv s))
            (\<lambda>_. tail_parse c e (argc - rte_eal_init e argc argv)
                    (drop (nat (rte_eal_init e argc argv)) argv)) = (s', out)"
    by (simp add: init_unfold)
  then show thesis
  proof (cases rule: seq_cases)
    case fault
    with bind_port_info_no_fault [of c e "started e argc argv s"] show thesis
      by simp
  next
    case (exit x)
    with bind_port_info_exited [of c e "started e argc argv s" s' x] r0 that(2) show thesis
      by simp
  next
    case (ret s3 u)
    then have bind: "bind_port_info c e (started e argc argv s) = (s3, Returned ())"
      and rest: "tail_parse c e (argc - rte_eal_init e argc argv)
                    (drop (nat (rte_eal_init e argc argv)) argv) s3 = (s', out)"
      by simp_all
    from bind_port_info_returned [OF bind] obtain p where p: "ports s3 = Some p"
      by blast
    obtain rv p' nc' where pa:
      "parse_app_args e (rte_eth_dev_count e) (argc - rte_eal_init e argc argv)
           (drop (nat (rte_eal_init e argc argv)) argv) p (num_clients s3) = (rv, p', nc')"
      by (cases "parse_app_args e (rte_eth_dev_count e) (argc - rte_eal_init e argc argv)
           (drop (nat (rte_eal_init e argc argv)) argv) p (num_clients s3)") blast
    show thesis
    proof (cases "rv = 0")
      case False
      with rest p pa have "s' = parsed s3 rv p' nc'" "out = Returned (- 1)"
        by (simp_all add: tail_parse_def)
      with that(3) [OF r0 bind p pa False] show thesis
        by simp
    next
      case True
      note pa0 = pa [unfolded True]
      have p4: "ports (parsed s3 0 p' nc') = Some p'"
        by (simp add: parsed_def)
      from rest p pa True have "tail_pool c e (parsed s3 0 p' nc') = (s', out)"
        by (simp add: tail_parse_def)
      then have "seq (init_mbuf_pools c e (parsed s3 0 p' nc')) (\<lambda>retval s5.
          if retval \<noteq> 0 then rte_exit EXIT_FAILURE ''Cannot create needed mbuf pools'' s5
          else tail_ports c e s5) = (s', out)"
        by (simp add: tail_pool_def)
      then show thesis
      proof (cases rule: seq_cases)
        case fault
        with init_mbuf_pools_no_fault [OF p4, of c e] show thesis
          by simp
      next
        case (exit x)
        with init_mbuf_pools_exited [OF p4, of c e s' x] have "x = EXIT_FAILURE"
          by simp
        with exit that(4) [OF r0 bind p pa0] show thesis
          by simp
      next
        case (ret s5 rv5)
        note pool = ret(1) and rest5 = ret(2)
        note pool_spec = init_mbuf_pools_returned [OF p4 pool]
        then have p5: "ports s5 = Some p'"
          using p4 by simp
        show thesis
        proof (cases "rv5 = 0")
          case False
          with pool_spec have "rv5 = 1" by simp
          with pool rest5 that(5) [OF r0 bind p pa0, of s5] show thesis
            by (simp add: rte_exit_def)
        next
          case True
          note pool0 = pool [unfolded True]
          from rest5 True have "seq (port_stage e s5) (\<lambda>_. tail_rings c e) = (s', out)"
            by (simp add: tail_ports_def)
          then show thesis
          proof (cases rule: seq_cases)
            case fault
            with port_stage_spec [OF p5, of e s' Fault] show thesis
              by simp
          next
            case (exit x)
            with port_stage_spec [OF p5, of e s' "Exited x"] have "x = EXIT_FAILURE"
              by auto
            with exit that(6) [OF r0 bind p pa0 pool0] show thesis
              by simp
          next
            case (ret s6 u6)
            then have stage: "port_stage e s5 = (s6, Returned ())"
              and rest6: "tail_rings c e s6 = (s', out)"
              by simp_all
            from port_stage_spec [OF p5 stage] have p6: "ports s6 = Some p'"
              using p5 by auto
            with rest6 have "seq (init_shm_rings c e (checked s6 p')) (\<lambda>_ s7. (s7, Returned 0))
                = (s', out)"
              by (simp add: tail_rings_def)
            then show thesis
            proof (cases rule: seq_cases)
              case fault
              with init_shm_rings_no_fault [of c e "checked s6 p'"] show thesis
                by simp
            next
              case (exit x)
              with init_shm_rings_exited [of c e "checked s6 p'" s' x] have "x = EXIT_FAILURE"
                by simp
              with exit that(7) [OF r0 bind p pa0 pool0 stage] show thesis
                by simp
            next
              case (ret s7 rv7)
              with init_shm_rings_returned [of c e "checked s6 p'" s7 rv7]
              have "rv7 = 0" "s7 = s'" "out = Returned 0"
                by simp_all
              with ret that(8) [OF r0 bind p pa0 pool0 stage] show thesis
                by simp
            qed
          qed
        qed
      qed
    qed
  qed
qed

lemma ends_ok_Returned [simp]: "ends_ok evs (Returned x) = (\<not> list_ex null_result evs)"
  by (simp add: ends_ok_def)

lemma ends_ok_ExitedI:
  "evs = pre @ [ev, Rte_exit EXIT_FAILURE msg] \<Longrightarrow> \<not> list_ex null_result pre \<Longrightarrow>
     ends_ok evs (Exited EXIT_FAILURE)"
  by (auto simp: ends_ok_def)

lemma ends_ok_append:
  assumes "\<not> list_ex null_result evs1" and "ends_ok evs2 out"
  shows "ends_ok (evs1 @ evs2) out"
proof (cases out)
  case (Returned x)
  with assms show ?thesis by simp
next
  case (Exited code)
  with assms(2) obtain pre ev msg where e: "code = EXIT_FAILURE"
    "evs2 = pre @ [ev, Rte_exit EXIT_FAILURE msg]" "\<not> list_ex null_result pre"
    by (auto simp: ends_ok_def)
  have "evs1 @ evs2 = (evs1 @ pre) @ [ev, Rte_exit EXIT_FAILURE msg]"
    using e(2) by simp
  moreover have "\<not> list_ex null_result (evs1 @ pre)"
    using assms(1) e(3) by simp
  ultimately show ?thesis
    using Exited e(1) ends_ok_ExitedI by blast
next
  case Fault
  with assms(2) show ?thesis by (simp add: ends_ok_def)
qed

lemma ends_ok_Cons:
  assumes "\<not> null_result ev" and "ends_ok evs out"
  shows "ends_ok (ev # evs) out"
  using ends_ok_append [of "[ev]" evs out] assms by simp

lemma null_result_ring_event [simp]:
  "null_result (ring_event c e j) = (ring_result c e j = None)"
  by (simp add: ring_event_def)

lemma init_shm_rings_ends:
  assumes "init_shm_rings c e s = (s', out)"
  shows "\<exists>evs. trace s' = trace s @ evs \<and> ends_ok evs out"
proof (cases out)
  case (Returned r)
  with init_shm_rings_returned [of c e s s' r] assms show ?thesis
    by (auto simp: list_ex_iff)
next
  case (Exited x)
  note ex = init_shm_rings_exited [OF assms [unfolded Exited]]
  then have x: "x = EXIT_FAILURE" by simp
  from ex consider
    (alloc) "trace s' = trace s @ [] @ [Malloc ''client details'' (malloc_size c s) False,
               Rte_exit EXIT_FAILURE ''Cannot allocate memory for client program details'']"
  | (ring) k where "\<forall>j<k. ring_result c e j \<noteq> None"
      "trace s' = trace s @ (Malloc ''client details'' (malloc_size c s) True
                      # map (ring_event c e) [0..<k])
                      @ [ring_event c e k,
                         Rte_exit EXIT_FAILURE ''Cannot create rx ring queue for client %u'']"
    by auto
  then show ?thesis
  proof cases
    case alloc
    have "ends_ok ([] @ [Malloc ''client details'' (malloc_size c s) False,
               Rte_exit EXIT_FAILURE ''Cannot allocate memory for client program details''])
            (Exited EXIT_FAILURE :: int outcome)"
      by (rule ends_ok_ExitedI [OF refl]) simp
    with alloc Exited x show ?thesis by blast
  next
    case ring
    have "ends_ok ((Malloc ''client details'' (malloc_size c s) True
                      # map (ring_event c e) [0..<k])
                      @ [ring_event c e k,
                         Rte_exit EXIT_FAILURE ''Cannot create rx ring queue for client %u''])
            (Exited EXIT_FAILURE :: int outcome)"
      using ring(1) by (intro ends_ok_ExitedI [OF refl]) (auto simp: list_ex_iff)
    with ring(2) Exited x show ?thesis by blast
  qed
next
  case Fault
  with init_shm_rings_no_fault [of c e s] assms show ?thesis by simp
qed


lemma is_init_port_not_null: "list_all is_init_port evs \<Longrightarrow> \<not> list_ex null_result evs"
proof (induction evs)
  case Nil
  then show ?case by simp
next
  case (Cons ev evs)
  then show ?case by (cases ev) simp_all
qed

lemma port_stage_ends:
  assumes "ports s = Some p" and "port_stage e s = (s', out)"
  shows "\<exists>evs. trace s' = trace s @ evs \<and> ends_ok evs out"
proof -
  from port_stage_spec [OF assms] obtain evs where evs:
    "s' = s\<lparr>trace := trace s @ evs\<rparr>"
    "(out = Returned () \<and> list_all is_init_port evs)
          \<or> (out = Exited EXIT_FAILURE
              \<and> (\<exists>pre pid rv. evs = pre @ [Init_port pid rv,
                                    Rte_exit EXIT_FAILURE ''Cannot initialise port %d'']
                   \<and> list_all is_init_port pre))"
    by blast
  from evs(2) have "ends_ok evs out"
  proof
    assume "out = Returned () \<and> list_all is_init_port evs"
    then show ?thesis by (simp add: is_init_port_not_null)
  next
    assume "out = Exited EXIT_FAILURE
              \<and> (\<exists>pre pid rv. evs = pre @ [Init_port pid rv,
                                    Rte_exit EXIT_FAILURE ''Cannot initialise port %d'']
                   \<and> list_all is_init_port pre)"
    then show ?thesis
      using ends_ok_ExitedI is_init_port_not_null by blast
  qed
  with evs(1) show ?thesis by auto
qed

lemma tail_rings_ends:
  assumes "ports s = Some p" and "tail_rings c e s = (s', out)"
  shows "\<exists>evs. trace s' = trace s @ evs \<and> ends_ok evs out"
proof -
  obtain s7 o7 where r: "init_shm_rings c e (checked s p) = (s7, o7)"
    by force
  from init_shm_rings_ends [OF r] obtain evs where evs:
    "trace s7 = trace (checked s p) @ evs" "ends_ok evs o7"
    by blast
  from init_shm_rings_no_fault [of c e "checked s p"] r have nf: "o7 \<noteq> Fault" by simp
  have "s' = s7 \<and> ends_ok evs out"
    using assms r evs(2) nf by (cases o7) (auto simp: tail_rings_def ends_ok_def)
  then have "trace s' = trace s @ [Check_all_ports_link_status (num_ports p) (- 1)] @ evs"
    and "ends_ok ([Check_all_ports_link_status (num_ports p) (- 1)] @ evs) out"
    using evs(1) by (simp_all add: checked_def ends_ok_Cons)
  then show ?thesis by blast
qed

lemma tail_ports_ends:
  assumes "ports s = Some p" and "tail_ports c e s = (s', out)"
  shows "\<exists>evs. trace s' = trace s @ evs \<and> ends_ok evs out"
proof -
  from assms(2) have "seq (port_stage e s) (\<lambda>_. tail_rings c e) = (s', out)"
    by (simp add: tail_ports_def)
  then show ?thesis
  proof (cases rule: seq_cases)
    case (ret s6 u)
    from port_stage_spec [OF assms(1) ret(1)] have p6: "ports s6 = Some p"
      using assms(1) by auto
    from port_stage_ends [OF assms(1) ret(1)] obtain evs1 where e1:
      "trace s6 = trace s @ evs1" "\<not> list_ex null_result evs1"
      by auto
    from tail_rings_ends [OF p6 ret(2)] obtain evs2 where e2:
      "trace s' = trace s6 @ evs2" "ends_ok evs2 out"
      by blast
    from e1 e2 have "trace s' = trace s @ evs1 @ evs2" "ends_ok (evs1 @ evs2) out"
      by (simp_all add: ends_ok_append)
    then show ?thesis by blast
  next
    case (exit x)
    with port_stage_ends [OF assms(1), of e s' "Exited x"] show ?thesis
      by (simp add: ends_ok_def)
  next
    case fault
    with port_stage_ends [OF assms(1), of e s' Fault] show ?thesis
      by (simp add: ends_ok_def)
  qed
qed

lemma tail_pool_ends:
  assumes "ports s = Some p" and "tail_pool c e s = (s', out)"
  shows "\<exists>evs. trace s' = trace s @ evs \<and> ends_ok evs out"
proof -
  from assms(2) have "seq (init_mbuf_pools c e s) (\<lambda>retval s5.
      if retval \<noteq> 0 then rte_exit EXIT_FAILURE ''Cannot create needed mbuf pools'' s5
      else tail_ports c e s5) = (s', out)"
    by (simp add: tail_pool_def)
  then show ?thesis
  proof (cases rule: seq_cases)
    case (ret s5 rv)
    note pool = init_mbuf_pools_returned [OF assms(1) ret(1)]
    show ?thesis
    proof (cases "rv = 0")
      case True
      with pool obtain ev where ev: "trace s5 = trace s @ [ev]" "\<not> null_result ev"
        by (cases "rte_eal_process_type e = RTE_PROC_SECONDARY") auto
      from pool assms(1) have p5: "ports s5 = Some p" by simp
      from ret(2) True have "tail_ports c e s5 = (s', out)" by simp
      from tail_ports_ends [OF p5 this] obtain evs2 where e2:
        "trace s' = trace s5 @ evs2" "ends_ok evs2 out"
        by blast
      from ev e2 have "trace s' = trace s @ [ev] @ evs2" "ends_ok ([ev] @ evs2) out"
        by (simp_all add: ends_ok_Cons)
      then show ?thesis by blast
    next
      case False
      with pool obtain ev where ev: "trace s5 = trace s @ [ev]"
        by (cases "rte_eal_process_type e = RTE_PROC_SECONDARY") auto
      from ret(2) False have s': "s' = emit (Rte_exit EXIT_FAILURE ''Cannot create needed mbuf pools'') s5"
        and out: "out = Exited EXIT_FAILURE"
        by (simp_all add: rte_exit_def)
      from s' ev have "trace s' = trace s @ [] @ [ev, Rte_exit EXIT_FAILURE ''Cannot create needed mbuf pools'']"
        by simp
      moreover have "ends_ok ([] @ [ev, Rte_exit EXIT_FAILURE ''Cannot create needed mbuf pools''])
          (Exited EXIT_FAILURE :: int outcome)"
        by (rule ends_ok_ExitedI [OF refl]) simp
      ultimately show ?thesis using out by blast
    qed
  next
    case (exit x)
    note ex = init_mbuf_pools_exited [OF assms(1) exit(1)]
    then have "trace s' = trace s @ [] @ [Mempool_lookup (PKTMBUF_POOL_NAME c) False,
                              Rte_exit EXIT_FAILURE ''Cannot get mempool for mbufs'']"
      by simp
    moreover have "ends_ok ([] @ [Mempool_lookup (PKTMBUF_POOL_NAME c) False,
          Rte_exit EXIT_FAILURE ''Cannot get mempool for mbufs'']) (Exited EXIT_FAILURE :: int outcome)"
      by (rule ends_ok_ExitedI [OF refl]) simp
    ultimately show ?thesis using exit(2) ex by blast
  next
    case fault
    with init_mbuf_pools_no_fault [OF assms(1), of c e] show ?thesis by simp
  qed
qed



lemmas ex_defs = ex_common_def ex_primary_def ex_secondary_def ex_argv_def ex_published_def
  calls_def result_def startup_def

lemmas run_defs = init_def bind_port_info_def init_mbuf_pools_def init_shm_rings_def Let_def
  rte_exit_def emit_def seq_def zero_port_info_def EXIT_FAILURE_def CLIENT_QUEUE_RINGSIZE_def

lemma is_rings_event_ring_event [simp]: "is_rings_event (ring_event c e j)"
  by (simp add: ring_event_def)

lemma init_shm_rings_events:
  assumes "init_shm_rings c e s = (s', out)"
  shows "\<exists>evs. trace s' = trace s @ evs \<and> list_all is_rings_event evs"
proof (cases out)
  case (Returned r)
  with init_shm_rings_returned [of c e s s' r] assms
  have "trace s' = trace s @ Malloc ''client details'' (malloc_size c s) True
                     # map (ring_event c e) [0..<num_clients s]"
    by simp
  moreover have "list_all is_rings_event (Malloc ''client details'' (malloc_size c s) True
                     # map (ring_event c e) [0..<num_clients s])"
    by (simp add: list_all_iff)
  ultimately show ?thesis by blast
next
  case (Exited x)
  from init_shm_rings_exited [OF assms [unfolded Exited]] consider
    (alloc) "trace s' = trace s @ [Malloc ''client details'' (malloc_size c s) False,
               Rte_exit EXIT_FAILURE ''Cannot allocate memory for client program details'']"
  | (ring) k where
      "trace s' = trace s @ Malloc ''client details'' (malloc_size c s) True
                      # map (ring_event c e) [0..<k]
                      @ [ring_event c e k,
                         Rte_exit EXIT_FAILURE ''Cannot create rx ring queue for client %u'']"
    by auto
  then show ?thesis
  proof cases
    case alloc
    moreover have "list_all is_rings_event [Malloc ''client details'' (malloc_size c s) False,
               Rte_exit EXIT_FAILURE ''Cannot allocate memory for client program details'']"
      by simp
    ultimately show ?thesis by blast
  next
    case ring
    moreover have "list_all is_rings_event (Malloc ''client details'' (malloc_size c s) True
                      # map (ring_event c e) [0..<k]
                      @ [ring_event c e k,
                         Rte_exit EXIT_FAILURE ''Cannot create rx ring queue for client %u''])"
      by (simp add: list_all_iff)
    ultimately show ?thesis by blast
  qed
next
  case Fault
  with init_shm_rings_no_fault [of c e s] assms show ?thesis by simp
qed

lemma rings_events_filter:
  assumes "list_all is_rings_event evs"
  shows "filter is_link_check evs = [] \<and> \<not> list_ex is_init_port evs
     \<and> Mempool_lookup n ok \<notin> set evs"
  using assms
proof (induction evs)
  case Nil
  then show ?case by simp
next
  case (Cons ev evs)
  then show ?case by (cases ev) simp_all
qed

lemma init_secondary_trace:
  assumes sec: "rte_eal_process_type e = RTE_PROC_SECONDARY"
    and run: "init c e argc argv s = (s', out)"
  shows "trace s' = trace s @ [Eal_init (rte_eal_init e argc argv)]
     \<or> trace s' = trace s @ [Eal_init (rte_eal_init e argc argv), Eth_dev_count,
           Memzone_lookup (MZ_PORT_INFO c) False,
           Rte_exit EXIT_FAILURE ''Cannot get port info structure'']
     \<or> (\<exists>rv. trace s' = trace s @ [Eal_init (rte_eal_init e argc argv), Eth_dev_count,
           Memzone_lookup (MZ_PORT_INFO c) True, Parse_app_args rv])
     \<or> trace s' = trace s @ [Eal_init (rte_eal_init e argc argv), Eth_dev_count,
           Memzone_lookup (MZ_PORT_INFO c) True, Parse_app_args 0,
           Mempool_lookup (PKTMBUF_POOL_NAME c) False,
           Rte_exit EXIT_FAILURE ''Cannot get mempool for mbufs'']
     \<or> (\<exists>np revs. trace s' = trace s @ [Eal_init (rte_eal_init e argc argv), Eth_dev_count,
           Memzone_lookup (MZ_PORT_INFO c) True, Parse_app_args 0,
           Mempool_lookup (PKTMBUF_POOL_NAME c) True,
           Check_all_ports_link_status np (- 1)] @ revs
         \<and> list_all is_rings_event revs)"
  using run
proof (cases rule: init_cases)
  case eal_fail
  then show ?thesis by simp
next
  case bind_exit
  from bind_port_info_exited [OF bind_exit(2)] sec show ?thesis
    by (simp add: started_def)
next
  case (parse_fail s3 p rv p' nc')
  from bind_port_info_returned [OF parse_fail(2)] sec parse_fail(6) show ?thesis
    by (simp add: started_def parsed_def)
next
  case (pool_exit s3 p p' nc')
  have p4: "ports (parsed s3 0 p' nc') = Some p'"
    by (simp add: parsed_def)
  from bind_port_info_returned [OF pool_exit(2)] init_mbuf_pools_exited [OF p4 pool_exit(5)] sec
  show ?thesis
    by (simp add: started_def parsed_def)
next
  case (pool_fail s3 p p' nc' s5)
  have p4: "ports (parsed s3 0 p' nc') = Some p'"
    by (simp add: parsed_def)
  from init_mbuf_pools_returned [OF p4 pool_fail(5)] sec show ?thesis
    by simp
next
  case (port_exit s3 p p' nc' s5)
  have p4: "ports (parsed s3 0 p' nc') = Some p'"
    by (simp add: parsed_def)
  from init_mbuf_pools_returned [OF p4 port_exit(5)] have p5: "ports s5 = Some p'"
    using p4 by simp
  from port_stage_spec [OF p5 port_exit(6)] sec show ?thesis
    by auto
next
  case (rings_exit s3 p p' nc' s5 s6)
  have p4: "ports (parsed s3 0 p' nc') = Some p'"
    by (simp add: parsed_def)
  note pool = init_mbuf_pools_returned [OF p4 rings_exit(5)]
  then have p5: "ports s5 = Some p'"
    using p4 by simp
  from port_stage_spec [OF p5 rings_exit(6)] sec have s6: "s6 = s5"
    by auto
  from init_shm_rings_events [OF rings_exit(7)] obtain revs where revs:
    "trace s' = trace (checked s6 p') @ revs" "list_all is_rings_event revs"
    by blast
  from bind_port_info_returned [OF rings_exit(2)] pool sec s6 revs(1)
  have "trace s' = trace s @ [Eal_init (rte_eal_init e argc argv), Eth_dev_count,
           Memzone_lookup (MZ_PORT_INFO c) True, Parse_app_args 0,
           Mempool_lookup (PKTMBUF_POOL_NAME c) True,
           Check_all_ports_link_status (num_ports p') (- 1)] @ revs"
    by (simp add: started_def parsed_def checked_def)
  with revs(2) show ?thesis by blast
next
  case (ok s3 p p' nc' s5 s6)
  have p4: "ports (parsed s3 0 p' nc') = Some p'"
    by (simp add: parsed_def)
  note pool = init_mbuf_pools_returned [OF p4 ok(5)]
  then have p5: "ports s5 = Some p'"
    using p4 by simp
  from port_stage_spec [OF p5 ok(6)] sec have s6: "s6 = s5"
    by auto
  from init_shm_rings_events [OF ok(7)] obtain revs where revs:
    "trace s' = trace (checked s6 p') @ revs" "list_all is_rings_event revs"
    by blast
  from bind_port_info_returned [OF ok(2)] pool sec s6 revs(1)
  have "trace s' = trace s @ [Eal_init (rte_eal_init e argc argv), Eth_dev_count,
           Memzone_lookup (MZ_PORT_INFO c) True, Parse_app_args 0,
           Mempool_lookup (PKTMBUF_POOL_NAME c) True,
           Check_all_ports_link_status (num_ports p') (- 1)] @ revs"
    by (simp add: started_def parsed_def checked_def)
  with revs(2) show ?thesis by blast
qed






lemma startup_simps [simp]:
  "trace startup = []" "clients startup = None" "pktmbuf_pool startup = None"
  "ports startup = None" "num_clients startup = 0"
  by (simp_all add: startup_def)

lemma init_returned_nonzero:
  assumes "init c e argc argv s = (s', Returned r)" and "r \<noteq> 0"
  shows "r = - 1 \<and> pktmbuf_pool s' = pktmbuf_pool s \<and> clients s' = clients s
     \<and> (if rte_eal_init e argc argv < 0
        then trace s' = trace s @ [Eal_init (rte_eal_init e argc argv)]
        else \<exists>rv. rv \<noteq> 0
          \<and> trace s' = trace s @ [Eal_init (rte_eal_init e argc argv), Eth_dev_count]
                @ bind_calls c e @ [Parse_app_args rv])"
  using assms(1)
proof (cases rule: init_cases)
  case eal_fail
  then show ?thesis by simp
next
  case (parse_fail s3 p rv p' nc')
  from bind_port_info_returned [OF parse_fail(2)] parse_fail(1,5,6,7) show ?thesis
    by (cases "rte_eal_process_type e = RTE_PROC_SECONDARY")
      (auto simp: started_def parsed_def bind_calls_def)
next
  case (ok s3 p p' nc' s5 s6)
  with assms(2) show ?thesis by simp
qed simp_all

lemma init_shm_rings_progress:
  assumes "rte_malloc e ''client details'' (malloc_size c s) 0 \<noteq> None"
    and "\<forall>j<num_clients s. ring_result c e j \<noteq> None"
  shows "snd (init_shm_rings c e s) = Returned 0"
proof -
  obtain s' out where run: "init_shm_rings c e s = (s', out)"
    by force
  have "out = Returned 0"
  proof (cases out)
    case (Returned r)
    with init_shm_rings_returned [of c e s s' r] run show ?thesis by simp
  next
    case (Exited x)
    with init_shm_rings_exited [of c e s s' x] run assms show ?thesis by auto
  next
    case Fault
    with init_shm_rings_no_fault [of c e s] run show ?thesis by simp
  qed
  with run show ?thesis by simp
qed

lemma is_malloc_ring_event [simp]: "\<not> is_malloc (ring_event c e j)"
  by (simp add: ring_event_def)

lemma unat_of_nat32: "n < 2 ^ 32 \<Longrightarrow> unat (word_of_nat n :: 32 word) = n"
  by (simp add: unat_of_nat take_bit_nat_eq_self)

lemma init_shm_rings_first_failure:
  assumes alloc: "rte_malloc e ''client details'' (malloc_size c s) 0 \<noteq> None"
    and k: "k < num_clients s" and miss: "ring_result c e k = None"
    and before: "\<forall>j<k. ring_result c e j \<noteq> None"
  shows "snd (init_shm_rings c e s) = Exited EXIT_FAILURE
     \<and> trace (fst (init_shm_rings c e s)) =
         trace s @ Malloc ''client details'' (malloc_size c s) True
           # map (ring_event c e) [0..<k]
           @ [ring_event c e k,
              Rte_exit EXIT_FAILURE ''Cannot create rx ring queue for client %u'']"
proof -
  obtain s' out where run: "init_shm_rings c e s = (s', out)"
    by force
  show ?thesis
  proof (cases out)
    case (Returned r)
    from init_shm_rings_returned [OF run [unfolded Returned]] k miss show ?thesis
      by auto
  next
    case (Exited x)
    from init_shm_rings_exited [OF run [unfolded Exited]] alloc obtain m where m:
      "x = EXIT_FAILURE" "m < num_clients s" "ring_result c e m = None"
      "\<forall>j<m. ring_result c e j \<noteq> None"
      "trace s' = trace s @ Malloc ''client details'' (malloc_size c s) True
                      # map (ring_event c e) [0..<m]
                      @ [ring_event c e m,
                         Rte_exit EXIT_FAILURE ''Cannot create rx ring queue for client %u'']"
      by auto
    have "m = k"
    proof (rule ccontr)
      assume "m \<noteq> k"
      then consider "m < k" | "k < m"
        by linarith
      then show False
      proof cases
        case 1
        with before m(3) show False by auto
      next
        case 2
        with m(4) miss show False by auto
      qed
    qed
    with m run Exited show ?thesis
      by simp
  next
    case Fault
    with init_shm_rings_no_fault [of c e s] run show ?thesis by simp
  qed
qed

lemma init_port_events_no_parse:
  "list_all is_init_port evs \<Longrightarrow> Parse_app_args rv \<notin> set evs"
  by (induction evs) auto

lemma rings_events_no_parse:
  "list_all is_rings_event evs \<Longrightarrow> Parse_app_args rv \<notin> set evs"
  by (induction evs) auto

lemma bind_returned_no_parse:
  assumes "bind_port_info c e s = (s', Returned u)"
  shows "\<exists>evs. trace s' = trace s @ evs \<and> Parse_app_args rv \<notin> set evs"
  using bind_port_info_returned [OF assms]
  by (cases "rte_eal_process_type e = RTE_PROC_SECONDARY") auto

lemma init_parse_failure:
  assumes run: "init c e argc argv s = (s', out)"
    and start: "trace s = []"
    and ev: "Parse_app_args rv \<in> set (trace s')" and rv: "rv \<noteq> 0"
  shows "out = Returned (- 1)"
  using run
proof (cases rule: init_cases)
  case eal_fail
  then show ?thesis by simp
next
  case bind_exit
  from bind_port_info_exited [OF bind_exit(2)] ev start show ?thesis
    by (cases "rte_eal_process_type e = RTE_PROC_SECONDARY") (auto simp: started_def)
next
  case (parse_fail s3 p rv' p' nc')
  then show ?thesis by simp
next
  case (pool_exit s3 p p' nc')
  have p4: "ports (parsed s3 0 p' nc') = Some p'"
    by (simp add: parsed_def)
  from bind_returned_no_parse [OF pool_exit(2), of rv] obtain evs where
    "trace s3 = trace (started e argc argv s) @ evs" "Parse_app_args rv \<notin> set evs"
    by blast
  with init_mbuf_pools_exited [OF p4 pool_exit(5)] ev start rv show ?thesis
    by (auto simp: started_def parsed_def)
next
  case (pool_fail s3 p p' nc' s5)
  have p4: "ports (parsed s3 0 p' nc') = Some p'"
    by (simp add: parsed_def)
  from bind_returned_no_parse [OF pool_fail(2), of rv] obtain evs where
    "trace s3 = trace (started e argc argv s) @ evs" "Parse_app_args rv \<notin> set evs"
    by blast
  with init_mbuf_pools_returned [OF p4 pool_fail(5)] pool_fail(6) ev start rv show ?thesis
    by (cases "rte_eal_process_type e = RTE_PROC_SECONDARY") (auto simp: started_def parsed_def)
next
  case (port_exit s3 p p' nc' s5)
  have p4: "ports (parsed s3 0 p' nc') = Some p'"
    by (simp add: parsed_def)
  note pool = init_mbuf_pools_returned [OF p4 port_exit(5)]
  then have p5: "ports s5 = Some p'"
    using p4 by simp
  from bind_returned_no_parse [OF port_exit(2), of rv] obtain evs where evs:
    "trace s3 = trace (started e argc argv s) @ evs" "Parse_app_args rv \<notin> set evs"
    by blast
  from port_stage_spec [OF p5 port_exit(6)] obtain pevs pre pid prv where pevs:
    "trace s' = trace s5 @ pevs"
    "pevs = pre @ [Init_port pid prv, Rte_exit EXIT_FAILURE ''Cannot initialise port %d'']"
    "list_all is_init_port pre"
    by auto
  from pevs(2,3) have "Parse_app_args rv \<notin> set pevs"
    by (simp add: init_port_events_no_parse)
  with evs pevs(1) pool ev start rv show ?thesis
    by (cases "rte_eal_process_type e = RTE_PROC_SECONDARY") (auto simp: started_def parsed_def)
next
  case (rings_exit s3 p p' nc' s5 s6)
  have p4: "ports (parsed s3 0 p' nc') = Some p'"
    by (simp add: parsed_def)
  note pool = init_mbuf_pools_returned [OF p4 rings_exit(5)]
  then have p5: "ports s5 = Some p'"
    using p4 by simp
  from bind_returned_no_parse [OF rings_exit(2), of rv] obtain evs where evs:
    "trace s3 = trace (started e argc argv s) @ evs" "Parse_app_args rv \<notin> set evs"
    by blast
  from port_stage_spec [OF p5 rings_exit(6)] obtain pevs where pevs:
    "trace s6 = trace s5 @ pevs" "list_all is_init_port pevs"
    by auto
  from init_shm_rings_events [OF rings_exit(7)] obtain revs where revs:
    "trace s' = trace (checked s6 p') @ revs" "list_all is_rings_event revs"
    by blast
  from pevs(2) revs(2) have "Parse_app_args rv \<notin> set pevs" "Parse_app_args rv \<notin> set revs"
    by (simp_all add: init_port_events_no_parse rings_events_no_parse)
  with evs pevs(1) revs(1) pool ev start rv show ?thesis
    by (cases "rte_eal_process_type e = RTE_PROC_SECONDARY")
      (auto simp: started_def parsed_def checked_def)
next
  case (ok s3 p p' nc' s5 s6)
  have p4: "ports (parsed s3 0 p' nc') = Some p'"
    by (simp add: parsed_def)
  note pool = init_mbuf_pools_returned [OF p4 ok(5)]
  then have p5: "ports s5 = Some p'"
    using p4 by simp
  from bind_returned_no_parse [OF ok(2), of rv] obtain evs where evs:
    "trace s3 = trace (started e argc argv s) @ evs" "Parse_app_args rv \<notin> set evs"
    by blast
  from port_stage_spec [OF p5 ok(6)] obtain pevs where pevs:
    "trace s6 = trace s5 @ pevs" "list_all is_init_port pevs"
    by auto
  from init_shm_rings_events [OF ok(7)] obtain revs where revs:
    "trace s' = trace (checked s6 p') @ revs" "list_all is_rings_event revs"
    by blast
  from pevs(2) revs(2) have "Parse_app_args rv \<notin> set pevs" "Parse_app_args rv \<notin> set revs"
    by (simp_all add: init_port_events_no_parse rings_events_no_parse)
  with evs pevs(1) revs(1) pool ev start rv show ?thesis
    by (cases "rte_eal_process_type e = RTE_PROC_SECONDARY")
      (auto simp: started_def parsed_def checked_def)
qed

section \<open>The claims\<close>

text \<open>
  C1 (as amended). A secondary does poll the link status: in every run of \<open>init\<close> as a
  secondary, \<open>check_all_ports_link_status\<close> is called exactly once when the buffer pool
  lookup succeeded, and not at all when the run ended before. What is kept to the primary
  is the port loop: a secondary never calls \<open>init_port\<close>.
\<close>

theorem link_status_check_in_secondary:
  assumes "rte_eal_process_type e = RTE_PROC_SECONDARY"
  shows "length (filter is_link_check (calls c e argc argv))
           = (if Mempool_lookup (PKTMBUF_POOL_NAME c) True \<in> set (calls c e argc argv)
              then 1 else 0)
     \<and> \<not> list_ex is_init_port (calls c e argc argv)"
proof -
  obtain s' out where run: "init c e argc argv startup = (s', out)"
    by force
  then have calls: "calls c e argc argv = trace s'"
    by (simp add: calls_def)
  have empty: "trace startup = []"
    by (simp add: startup_def)
  from init_secondary_trace [OF assms run] show ?thesis
    unfolding calls empty
    by (elim disjE exE conjE) (simp_all add: rings_events_filter)
qed

theorem link_status_check_in_secondary_witness:
  "rte_eal_process_type ex_secondary = RTE_PROC_SECONDARY
   \<and> length (filter is_link_check (calls ex_common ex_secondary 3 ex_argv)) = 1
   \<and> \<not> list_ex is_init_port (calls ex_common ex_secondary 3 ex_argv)"
proof -
  have sec: "rte_eal_process_type ex_secondary = RTE_PROC_SECONDARY"
    by (simp add: ex_secondary_def)
  have "Mempool_lookup (PKTMBUF_POOL_NAME ex_common) True
          \<in> set (calls ex_common ex_secondary 3 ex_argv)"
    by (simp add: ex_defs run_defs init_ports_loop.simps rings_loop.simps)
  with link_status_check_in_secondary [OF sec, of ex_common 3 ex_argv] sec show ?thesis
    by simp
qed

text \<open>
  C1 as stated fails: this secondary, whose lookups all succeed, calls
  \<open>check_all_ports_link_status\<close>.
\<close>

theorem secondary_reaches_link_check:
  "rte_eal_process_type ex_secondary = RTE_PROC_SECONDARY
   \<and> Check_all_ports_link_status 2 (- 1) \<in> set (calls ex_common ex_secondary 3 ex_argv)"
  by (simp add: ex_defs run_defs init_ports_loop.simps rings_loop.simps)

text \<open>
  C2 (as amended). A secondary does not look up one queue only: in its queue binding it
  walks the client indices from 0 upwards and looks up the named queue of each, once,
  until one is missing. When the client block cannot be allocated, it makes no lookup and
  the process ends. When every queue is found, the binding returns 0 having looked up
  the queue of every index below \<open>num_clients\<close>, in increasing order. When the queue of
  index \<open>k\<close> is the first that is missing, it has looked up the queues of the indices up
  to \<open>k\<close>, in increasing order, and the process ends right after the failed lookup.
  \<open>init.c\<close> has no client index of the process's own.
\<close>

theorem secondary_looks_up_every_queue:
  assumes "rte_eal_process_type e = RTE_PROC_SECONDARY"
  shows
    "(rte_malloc e ''client details'' (sizeof_client c * num_clients s) 0 = None \<longrightarrow>
        snd (init_shm_rings c e s) = Exited EXIT_FAILURE
        \<and> trace (fst (init_shm_rings c e s)) =
            trace s @ [Malloc ''client details'' (sizeof_client c * num_clients s) False,
              Rte_exit EXIT_FAILURE ''Cannot allocate memory for client program details''])
     \<and> (rte_malloc e ''client details'' (sizeof_client c * num_clients s) 0 \<noteq> None
        \<and> (\<forall>i<num_clients s. rte_ring_lookup e (get_rx_queue_name c i) \<noteq> None) \<longrightarrow>
        snd (init_shm_rings c e s) = Returned 0
        \<and> trace (fst (init_shm_rings c e s)) =
            trace s @ Malloc ''client details'' (sizeof_client c * num_clients s) True
              # map (\<lambda>i. Ring_lookup (get_rx_queue_name c i) True) [0..<num_clients s])
     \<and> (rte_malloc e ''client details'' (sizeof_client c * num_clients s) 0 \<noteq> None
        \<and> k < num_clients s \<and> rte_ring_lookup e (get_rx_queue_name c k) = None
        \<and> (\<forall>i<k. rte_ring_lookup e (get_rx_queue_name c i) \<noteq> None) \<longrightarrow>
        snd (init_shm_rings c e s) = Exited EXIT_FAILURE
        \<and> trace (fst (init_shm_rings c e s)) =
            trace s @ Malloc ''client details'' (sizeof_client c * num_clients s) True
              # map (\<lambda>i. Ring_lookup (get_rx_queue_name c i) True) [0..<k]
              @ [Ring_lookup (get_rx_queue_name c k) False,
                 Rte_exit EXIT_FAILURE ''Cannot create rx ring queue for client %u''])"
proof -
  let ?sz = "sizeof_client c * num_clients s"
  have res: "\<And>i. ring_result c e i = rte_ring_lookup e (get_rx_queue_name c i)"
    using assms by (simp add: ring_result_def)
  have evt: "\<And>i. ring_event c e i = Ring_lookup (get_rx_queue_name c i)
                       (rte_ring_lookup e (get_rx_queue_name c i) \<noteq> None)"
    using assms by (simp add: ring_event_def ring_result_def)
  have none: "rte_malloc e ''client details'' ?sz 0 = None \<longrightarrow>
        snd (init_shm_rings c e s) = Exited EXIT_FAILURE
        \<and> trace (fst (init_shm_rings c e s)) =
            trace s @ [Malloc ''client details'' ?sz False,
              Rte_exit EXIT_FAILURE ''Cannot allocate memory for client program details'']"
    by (simp add: init_shm_rings_null malloc_size_def rte_exit_def)
  have all: "rte_malloc e ''client details'' ?sz 0 \<noteq> None
        \<and> (\<forall>i<num_clients s. rte_ring_lookup e (get_rx_queue_name c i) \<noteq> None) \<longrightarrow>
        snd (init_shm_rings c e s) = Returned 0
        \<and> trace (fst (init_shm_rings c e s)) =
            trace s @ Malloc ''client details'' ?sz True
              # map (\<lambda>i. Ring_lookup (get_rx_queue_name c i) True) [0..<num_clients s]"
  proof
    assume a: "rte_malloc e ''client details'' ?sz 0 \<noteq> None
        \<and> (\<forall>i<num_clients s. rte_ring_lookup e (get_rx_queue_name c i) \<noteq> None)"
    then have ret: "snd (init_shm_rings c e s) = Returned 0"
      by (intro init_shm_rings_progress) (simp_all add: malloc_size_def res)
    then have run: "init_shm_rings c e s = (fst (init_shm_rings c e s), Returned 0)"
      by (simp add: prod_eq_iff)
    have "map (ring_event c e) [0..<num_clients s]
        = map (\<lambda>i. Ring_lookup (get_rx_queue_name c i) True) [0..<num_clients s]"
      using a by (intro map_cong) (auto simp: evt)
    with init_shm_rings_returned [OF run] ret
    show "snd (init_shm_rings c e s) = Returned 0
        \<and> trace (fst (init_shm_rings c e s)) =
            trace s @ Malloc ''client details'' ?sz True
              # map (\<lambda>i. Ring_lookup (get_rx_queue_name c i) True) [0..<num_clients s]"
      by (simp add: malloc_size_def)
  qed
  have first: "rte_malloc e ''client details'' ?sz 0 \<noteq> None
        \<and> k < num_clients s \<and> rte_ring_lookup e (get_rx_queue_name c k) = None
        \<and> (\<forall>i<k. rte_ring_lookup e (get_rx_queue_name c i) \<noteq> None) \<longrightarrow>
        snd (init_shm_rings c e s) = Exited EXIT_FAILURE
        \<and> trace (fst (init_shm_rings c e s)) =
            trace s @ Malloc ''client details'' ?sz True
              # map (\<lambda>i. Ring_lookup (get_rx_queue_name c i) True) [0..<k]
              @ [Ring_lookup (get_rx_queue_name c k) False,
                 Rte_exit EXIT_FAILURE ''Cannot create rx ring queue for client %u'']"
  proof
    assume a: "rte_malloc e ''client details'' ?sz 0 \<noteq> None
        \<and> k < num_clients s \<and> rte_ring_lookup e (get_rx_queue_name c k) = None
        \<and> (\<forall>i<k. rte_ring_lookup e (get_rx_queue_name c i) \<noteq> None)"
    then have h: "rte_malloc e ''client details'' (malloc_size c s) 0 \<noteq> None"
      "k < num_clients s" "ring_result c e k = None" "\<forall>j<k. ring_result c e j \<noteq> None"
      by (simp_all add: malloc_size_def res)
    have "map (ring_event c e) [0..<k]
        = map (\<lambda>i. Ring_lookup (get_rx_queue_name c i) True) [0..<k]"
      using a by (intro map_cong) (auto simp: evt)
    moreover have "ring_event c e k = Ring_lookup (get_rx_queue_name c k) False"
      using a by (simp add: evt)
    ultimately show "snd (init_shm_rings c e s) = Exited EXIT_FAILURE
        \<and> trace (fst (init_shm_rings c e s)) =
            trace s @ Malloc ''client details'' ?sz True
              # map (\<lambda>i. Ring_lookup (get_rx_queue_name c i) True) [0..<k]
              @ [Ring_lookup (get_rx_queue_name c k) False,
                 Rte_exit EXIT_FAILURE ''Cannot create rx ring queue for client %u'']"
      using init_shm_rings_first_failure [OF h] by (simp add: malloc_size_def)
  qed
  from none all first show ?thesis
    by (intro conjI)
qed

theorem secondary_looks_up_every_queue_witness:
  "rte_eal_process_type ex_secondary = RTE_PROC_SECONDARY
   \<and> rte_eal_process_type ex_racing = RTE_PROC_SECONDARY
   \<and> rte_malloc ex_secondary ''client details'' (sizeof_client ex_common * num_clients startup) 0
       = None
   \<and> snd (init_shm_rings ex_common ex_secondary startup) = Exited EXIT_FAILURE
   \<and> trace (fst (init_shm_rings ex_common ex_secondary startup)) =
       [Malloc ''client details'' 0 False,
        Rte_exit EXIT_FAILURE ''Cannot allocate memory for client program details'']
   \<and> snd (init_shm_rings ex_common ex_secondary (startup\<lparr>num_clients := 2\<rparr>)) = Returned 0
   \<and> trace (fst (init_shm_rings ex_common ex_secondary (startup\<lparr>num_clients := 2\<rparr>))) =
       [Malloc ''client details'' 128 True, Ring_lookup ''rx_'' True, Ring_lookup ''rx_i'' True]
   \<and> rte_ring_lookup ex_racing (get_rx_queue_name ex_common 1) = None
   \<and> snd (init_shm_rings ex_common ex_racing (startup\<lparr>num_clients := 2\<rparr>)) = Exited EXIT_FAILURE
   \<and> trace (fst (init_shm_rings ex_common ex_racing (startup\<lparr>num_clients := 2\<rparr>))) =
       [Malloc ''client details'' 128 True, Ring_lookup ''rx_'' True, Ring_lookup ''rx_i'' False,
        Rte_exit EXIT_FAILURE ''Cannot create rx ring queue for client %u'']"
proof -
  let ?s = "startup\<lparr>num_clients := 2\<rparr>"
  have sec: "rte_eal_process_type ex_secondary = RTE_PROC_SECONDARY"
    and rac: "rte_eal_process_type ex_racing = RTE_PROC_SECONDARY"
    by (simp_all add: ex_racing_def ex_secondary_def)
  have upt1: "[0..<Suc 0] = [0]" and upt2: "[0..<2] = [0, Suc 0]"
    by (simp_all add: upt_conv_Cons)
  have none: "rte_malloc ex_secondary ''client details''
        (sizeof_client ex_common * num_clients startup) 0 = None"
    by (simp add: ex_secondary_def ex_primary_def)
  have all: "rte_malloc ex_secondary ''client details''
        (sizeof_client ex_common * num_clients ?s) 0 \<noteq> None
      \<and> (\<forall>i<num_clients ?s. rte_ring_lookup ex_secondary (get_rx_queue_name ex_common i) \<noteq> None)"
    by (auto simp: ex_secondary_def ex_primary_def ex_common_def less_Suc_eq numeral_2_eq_2)
  have miss: "rte_malloc ex_racing ''client details''
        (sizeof_client ex_common * num_clients ?s) 0 \<noteq> None
      \<and> 1 < num_clients ?s \<and> rte_ring_lookup ex_racing (get_rx_queue_name ex_common 1) = None
      \<and> (\<forall>i<1. rte_ring_lookup ex_racing (get_rx_queue_name ex_common i) \<noteq> None)"
    by (simp add: ex_racing_def ex_secondary_def ex_primary_def ex_common_def)
  from secondary_looks_up_every_queue [OF sec, where c = ex_common and s = startup and k = 0] none
  have a: "snd (init_shm_rings ex_common ex_secondary startup) = Exited EXIT_FAILURE
     \<and> trace (fst (init_shm_rings ex_common ex_secondary startup)) =
       [Malloc ''client details'' 0 False,
        Rte_exit EXIT_FAILURE ''Cannot allocate memory for client program details'']"
    by (simp add: ex_common_def)
  from secondary_looks_up_every_queue [OF sec, where c = ex_common and s = ?s and k = 0] all
  have b: "snd (init_shm_rings ex_common ex_secondary ?s) = Returned 0
     \<and> trace (fst (init_shm_rings ex_common ex_secondary ?s)) =
       [Malloc ''client details'' 128 True, Ring_lookup ''rx_'' True, Ring_lookup ''rx_i'' True]"
    by (simp add: ex_common_def upt2)
  from secondary_looks_up_every_queue [OF rac, where c = ex_common and s = ?s and k = 1] miss
  have c: "snd (init_shm_rings ex_common ex_racing ?s) = Exited EXIT_FAILURE
     \<and> trace (fst (init_shm_rings ex_common ex_racing ?s)) =
       [Malloc ''client details'' 128 True, Ring_lookup ''rx_'' True, Ring_lookup ''rx_i'' False,
        Rte_exit EXIT_FAILURE ''Cannot create rx ring queue for client %u'']"
    by (simp add: ex_common_def upt1)
  from sec rac none a b c miss show ?thesis
    by simp
qed

text \<open>
  C2 as stated fails: with two clients this secondary looks up the queues of index 0 and of
  index 1, which have different names.
\<close>

theorem secondary_looks_up_two_queues:
  "rte_eal_process_type ex_secondary = RTE_PROC_SECONDARY
   \<and> Ring_lookup (get_rx_queue_name ex_common 0) True \<in> set (calls ex_common ex_secondary 3 ex_argv)
   \<and> Ring_lookup (get_rx_queue_name ex_common 1) True \<in> set (calls ex_common ex_secondary 3 ex_argv)
   \<and> get_rx_queue_name ex_common 0 \<noteq> get_rx_queue_name ex_common 1"
  by (simp add: ex_defs run_defs init_ports_loop.simps rings_loop.simps)

text \<open>
  C3 (as amended). The client block is allocated by \<open>rte_malloc\<close> in every run of queue
  binding, whatever the role of the process: the first call \<open>init_shm_rings\<close> makes is
  the allocation of \<open>sizeof(*clients) * num_clients\<close> bytes, and it makes no other
  allocation. There is no path that attaches to an existing block.
\<close>

theorem client_block_allocated_in_every_role:
  "\<exists>evs. trace (fst (init_shm_rings c e s)) =
       trace s @ Malloc ''client details'' (sizeof_client c * num_clients s)
                   (rte_malloc e ''client details'' (sizeof_client c * num_clients s) 0 \<noteq> None)
                 # evs
     \<and> \<not> list_ex is_malloc evs"
proof -
  obtain s' out where run: "init_shm_rings c e s = (s', out)"
    by force
  show ?thesis
  proof (cases out)
    case (Returned r)
    with init_shm_rings_returned [of c e s s' r] run show ?thesis
      by (auto simp: malloc_size_def list_ex_iff)
  next
    case (Exited x)
    with init_shm_rings_exited [of c e s s' x] run show ?thesis
      by (auto simp: malloc_size_def list_ex_iff)
  next
    case Fault
    with init_shm_rings_no_fault [of c e s] run show ?thesis by simp
  qed
qed

theorem client_block_allocated_in_every_role_witness:
  "\<exists>evs. trace (fst (init_shm_rings ex_common ex_secondary (startup\<lparr>num_clients := 2\<rparr>))) =
       Malloc ''client details'' 128 True # evs \<and> \<not> list_ex is_malloc evs"
  using client_block_allocated_in_every_role [of ex_common ex_secondary "startup\<lparr>num_clients := 2\<rparr>"]
  by (simp add: ex_common_def ex_secondary_def ex_primary_def)

text \<open>C3 as stated fails: this secondary calls \<open>rte_malloc\<close> for the client block.\<close>

theorem secondary_allocates_client_block:
  "rte_eal_process_type ex_secondary = RTE_PROC_SECONDARY
   \<and> Malloc ''client details'' 128 True \<in> set (calls ex_common ex_secondary 3 ex_argv)"
  by (simp add: ex_defs run_defs init_ports_loop.simps rings_loop.simps)

text \<open>
  C4 (as amended). An environment failure makes \<open>init\<close> return -1: a negative result of
  the execution environment's initialisation does, and so does a non-zero result of the
  argument parser. It is the only way \<open>init\<close> returns a value other than 0, and it leaves
  no buffer pool and no client block bound.
  When the execution environment fails to initialise, nothing else has been called. When
  the argument parser fails, the port-info region has already been bound (looked up by a
  secondary; reserved and zero-filled by a primary) and the parser's call is the last one:
  no pool, client block or queue has been created or looked up.
\<close>

theorem environment_failure_returns_early:
  "(rte_eal_init e argc argv < 0 \<longrightarrow> result c e argc argv = Returned (- 1))
   \<and> (rv \<noteq> 0 \<and> Parse_app_args rv \<in> set (calls c e argc argv) \<longrightarrow>
        result c e argc argv = Returned (- 1))
   \<and> (result c e argc argv = Returned r \<and> r \<noteq> 0 \<longrightarrow>
        r = - 1
        \<and> pktmbuf_pool (fst (init c e argc argv startup)) = None
        \<and> clients (fst (init c e argc argv startup)) = None
        \<and> (if rte_eal_init e argc argv < 0
           then calls c e argc argv = [Eal_init (rte_eal_init e argc argv)]
           else \<exists>rv. rv \<noteq> 0
             \<and> calls c e argc argv = [Eal_init (rte_eal_init e argc argv), Eth_dev_count]
                  @ bind_calls c e @ [Parse_app_args rv]))"
proof -
  have early: "rte_eal_init e argc argv < 0 \<longrightarrow> result c e argc argv = Returned (- 1)"
    by (simp add: result_def init_unfold)
  have parse: "rv \<noteq> 0 \<and> Parse_app_args rv \<in> set (calls c e argc argv) \<longrightarrow>
        result c e argc argv = Returned (- 1)"
  proof
    assume a: "rv \<noteq> 0 \<and> Parse_app_args rv \<in> set (calls c e argc argv)"
    obtain s' out where run: "init c e argc argv startup = (s', out)"
      by force
    with a have "Parse_app_args rv \<in> set (trace s')" "rv \<noteq> 0"
      by (simp_all add: calls_def)
    from init_parse_failure [OF run _ this] run
    show "result c e argc argv = Returned (- 1)"
      by (simp add: result_def)
  qed
  have late: "result c e argc argv = Returned r \<and> r \<noteq> 0 \<longrightarrow>
        r = - 1
        \<and> pktmbuf_pool (fst (init c e argc argv startup)) = None
        \<and> clients (fst (init c e argc argv startup)) = None
        \<and> (if rte_eal_init e argc argv < 0
           then calls c e argc argv = [Eal_init (rte_eal_init e argc argv)]
           else \<exists>rv. rv \<noteq> 0
             \<and> calls c e argc argv = [Eal_init (rte_eal_init e argc argv), Eth_dev_count]
                  @ bind_calls c e @ [Parse_app_args rv])"
  proof
    assume "result c e argc argv = Returned r \<and> r \<noteq> 0"
    then have run: "init c e argc argv startup = (fst (init c e argc argv startup), Returned r)"
      and r: "r \<noteq> 0"
      by (simp_all add: result_def prod_eq_iff)
    from init_returned_nonzero [OF run r]
    show "r = - 1
        \<and> pktmbuf_pool (fst (init c e argc argv startup)) = None
        \<and> clients (fst (init c e argc argv startup)) = None
        \<and> (if rte_eal_init e argc argv < 0
           then calls c e argc argv = [Eal_init (rte_eal_init e argc argv)]
           else \<exists>rv. rv \<noteq> 0
             \<and> calls c e argc argv = [Eal_init (rte_eal_init e argc argv), Eth_dev_count]
                  @ bind_calls c e @ [Parse_app_args rv])"
      by (auto simp: calls_def split: if_splits)
  qed
  from early parse late show ?thesis
    by (intro conjI)
qed

theorem environment_failure_returns_early_witness:
  "rte_eal_init ex_no_eal 3 ex_argv < 0
   \<and> result ex_common ex_no_eal 3 ex_argv = Returned (- 1)
   \<and> calls ex_common ex_no_eal 3 ex_argv = [Eal_init (- 1)]
   \<and> Parse_app_args (- 1) \<in> set (calls ex_common ex_primary 2 ex_argv)
   \<and> result ex_common ex_primary 2 ex_argv = Returned (- 1)
   \<and> pktmbuf_pool (fst (init ex_common ex_primary 2 ex_argv startup)) = None
   \<and> clients (fst (init ex_common ex_primary 2 ex_argv startup)) = None
   \<and> (\<exists>rv. rv \<noteq> 0 \<and> calls ex_common ex_primary 2 ex_argv
         = [Eal_init 1, Eth_dev_count] @ bind_calls ex_common ex_primary @ [Parse_app_args rv])"
proof -
  have a: "rte_eal_init ex_no_eal 3 ex_argv < 0"
    by (simp add: ex_no_eal_def ex_primary_def)
  have p: "(- 1 :: int) \<noteq> 0 \<and> Parse_app_args (- 1) \<in> set (calls ex_common ex_primary 2 ex_argv)"
    by (simp add: ex_defs run_defs)
  from environment_failure_returns_early [where e = ex_primary and argc = 2 and argv = ex_argv
      and c = ex_common and rv = "- 1" and r = "- 1"] p
  have b: "result ex_common ex_primary 2 ex_argv = Returned (- 1) \<and> (- 1 :: int) \<noteq> 0"
    by simp
  have c: "\<not> rte_eal_init ex_primary 2 ex_argv < 0" "rte_eal_init ex_primary 2 ex_argv = 1"
    by (simp_all add: ex_primary_def)
  from environment_failure_returns_early [where e = ex_no_eal and argc = 3 and argv = ex_argv
      and c = ex_common and rv = "- 1" and r = "- 1"] a
  have "result ex_common ex_no_eal 3 ex_argv = Returned (- 1)
    \<and> calls ex_common ex_no_eal 3 ex_argv = [Eal_init (- 1)]"
    by (simp add: ex_no_eal_def ex_primary_def)
  moreover from environment_failure_returns_early [where e = ex_primary and argc = 2 and argv = ex_argv
      and c = ex_common and rv = "- 1" and r = "- 1"] b c
  have "pktmbuf_pool (fst (init ex_common ex_primary 2 ex_argv startup)) = None
   \<and> clients (fst (init ex_common ex_primary 2 ex_argv startup)) = None
   \<and> (\<exists>rv. rv \<noteq> 0 \<and> calls ex_common ex_primary 2 ex_argv
         = [Eal_init 1, Eth_dev_count] @ bind_calls ex_common ex_primary @ [Parse_app_args rv])"
    by simp
  ultimately show ?thesis
    using a b p by simp
qed

text \<open>
  C4 as stated fails: when this primary's argument parser fails, \<open>init\<close> returns -1 after
  the port-info region has been reserved.
\<close>

theorem region_reserved_before_parse_failure:
  "result ex_common ex_primary 2 ex_argv = Returned (- 1)
   \<and> Memzone_reserve ''port_info'' 72 True \<in> set (calls ex_common ex_primary 2 ex_argv)"
  by (simp add: ex_defs run_defs)



text \<open>
  C6. When the primary creates the buffer pool, the capacity it asks for is
  \<open>num_clients * MBUFS_PER_CLIENT + num_ports * MBUFS_PER_PORT\<close>, for every client and
  port count whose sum stays within the range of the C arithmetic (below \<open>2^31\<close>).
\<close>

theorem pool_capacity_formula:
  assumes "rte_eal_process_type e = RTE_PROC_PRIMARY"
    and "ports s = Some p"
    and "num_clients s * MBUFS_PER_CLIENT c + unat (num_ports p) * MBUFS_PER_PORT c < 2 ^ 31"
  shows "\<exists>cap ok. trace (fst (init_mbuf_pools c e s))
                     = trace s @ [Mempool_create (PKTMBUF_POOL_NAME c) cap ok]
     \<and> unat cap = num_clients s * MBUFS_PER_CLIENT c + unat (num_ports p) * MBUFS_PER_PORT c"
proof -
  let ?n = "num_clients s * MBUFS_PER_CLIENT c + unat (num_ports p) * MBUFS_PER_PORT c"
  let ?ok = "rte_mempool_create e (PKTMBUF_POOL_NAME c) (word_of_nat ?n)
               (MBUF_SIZE c) (MBUF_CACHE_SIZE c) (sizeof_pktmbuf_pool_private c)
               (rte_socket_id e) (NO_FLAGS c) \<noteq> None"
  from assms(3) have "?n < 2 ^ 32"
    by simp
  then have cap: "unat (word_of_nat ?n :: 32 word) = ?n"
    by (rule unat_of_nat32)
  have "trace (fst (init_mbuf_pools c e s))
      = trace s @ [Mempool_create (PKTMBUF_POOL_NAME c) (word_of_nat ?n) ?ok]"
    using assms(1,2) by (simp add: init_mbuf_pools_def Let_def del: of_nat_add of_nat_mult)
  with cap show ?thesis by blast
qed

theorem pool_capacity_formula_witness:
  "rte_eal_process_type ex_primary = RTE_PROC_PRIMARY
   \<and> (\<exists>cap ok. trace (fst (init_mbuf_pools ex_common ex_primary
          (startup\<lparr>ports := Some ex_published, num_clients := 4\<rparr>)))
                     = [Mempool_create ''mbuf_pool'' cap ok]
     \<and> unat cap = 4 * 1536 + 2 * 1536)"
proof -
  have a: "rte_eal_process_type ex_primary = RTE_PROC_PRIMARY"
    by (simp add: ex_primary_def)
  have b: "ports (startup\<lparr>ports := Some ex_published, num_clients := 4\<rparr>) = Some ex_published"
    by simp
  have c: "num_clients (startup\<lparr>ports := Some ex_published, num_clients := 4\<rparr>)
        * MBUFS_PER_CLIENT ex_common + unat (num_ports ex_published) * MBUFS_PER_PORT ex_common
      < 2 ^ 31"
    by (simp add: ex_common_def ex_published_def)
  from pool_capacity_formula [OF a b c] a show ?thesis
    by (simp add: ex_common_def ex_published_def)
qed

text \<open>
  C7 (as amended). With \<open>num_clients = 0\<close> the primary's queue binding creates no ring.
  It still asks \<open>rte_malloc\<close> for a block of size zero: when that call returns a non-null
  pointer the binding returns 0, and when it returns null the process ends with
  \<open>EXIT_FAILURE\<close>.
\<close>

theorem no_clients_no_rings:
  assumes "rte_eal_process_type e = RTE_PROC_PRIMARY" and "num_clients s = 0"
  shows "snd (init_shm_rings c e s) =
           (if rte_malloc e ''client details'' 0 0 = None
            then Exited EXIT_FAILURE else Returned 0)
     \<and> trace (fst (init_shm_rings c e s)) = trace s @
           (if rte_malloc e ''client details'' 0 0 = None
            then [Malloc ''client details'' 0 False,
                  Rte_exit EXIT_FAILURE ''Cannot allocate memory for client program details'']
            else [Malloc ''client details'' 0 True])"
  using assms(2)
  by (simp add: init_shm_rings_def Let_def rte_exit_def rings_loop_done)

theorem no_clients_no_rings_witness:
  "rte_eal_process_type ex_lenient = RTE_PROC_PRIMARY
   \<and> num_clients startup = 0
   \<and> snd (init_shm_rings ex_common ex_lenient startup) = Returned 0
   \<and> trace (fst (init_shm_rings ex_common ex_lenient startup)) = [Malloc ''client details'' 0 True]"
proof -
  have a: "rte_eal_process_type ex_lenient = RTE_PROC_PRIMARY"
    by (simp add: ex_lenient_def ex_primary_def)
  have b: "num_clients startup = 0"
    by simp
  from no_clients_no_rings [OF a b, of ex_common] a b show ?thesis
    by (simp add: ex_lenient_def)
qed

text \<open>
  C7 as stated fails: with \<open>num_clients = 0\<close> and an allocator that returns null for a
  block of size zero, the primary's queue binding ends the process.
\<close>

theorem no_clients_exits_when_malloc_null:
  "rte_eal_process_type ex_primary = RTE_PROC_PRIMARY
   \<and> num_clients startup = 0
   \<and> snd (init_shm_rings ex_common ex_primary startup) = Exited EXIT_FAILURE"
  by (simp add: ex_defs run_defs rings_loop.simps)

text \<open>
  C8. When the primary reserves the port-info region, it zero-fills the whole region
  right after the reservation and before the argument parser, which writes the port
  data, is called: the parser receives the all-zero region.
\<close>

theorem port_info_zeroed_before_population:
  assumes "rte_eal_process_type e = RTE_PROC_PRIMARY"
    and "0 \<le> rte_eal_init e argc argv"
    and "rte_memzone_reserve e (MZ_PORT_INFO c) (sizeof_port_info c) (rte_socket_id e)
           (NO_FLAGS c) = Some region"
  shows "ports (fst (bind_port_info c e s)) = Some zero_port_info
     \<and> (\<exists>rest. calls c e argc argv =
           [Eal_init (rte_eal_init e argc argv), Eth_dev_count,
            Memzone_reserve (MZ_PORT_INFO c) (sizeof_port_info c) True,
            Memset_zero (sizeof_port_info c),
            Parse_app_args (fst (parse_app_args e (rte_eth_dev_count e)
               (argc - rte_eal_init e argc argv) (drop (nat (rte_eal_init e argc argv)) argv)
               zero_port_info 0))] @ rest)"
proof
  show "ports (fst (bind_port_info c e s)) = Some zero_port_info"
    using assms(1,3) by (simp add: bind_port_info_def Let_def)
next
  let ?s2 = "started e argc argv startup"
  let ?s3 = "(emit (Memset_zero (sizeof_port_info c))
               (emit (Memzone_reserve (MZ_PORT_INFO c) (sizeof_port_info c) True) ?s2))
             \<lparr>ports := Some zero_port_info\<rparr>"
  let ?argc = "argc - rte_eal_init e argc argv"
  let ?argv = "drop (nat (rte_eal_init e argc argv)) argv"
  have bind: "bind_port_info c e ?s2 = (?s3, Returned ())"
    using assms(1,3) by (simp add: bind_port_info_def Let_def)
  have run: "init c e argc argv startup = tail_parse c e ?argc ?argv ?s3"
    using assms(2) bind by (simp add: init_unfold)
  obtain rv p' nc' where pa:
    "parse_app_args e (rte_eth_dev_count e) ?argc ?argv zero_port_info 0 = (rv, p', nc')"
    by (cases "parse_app_args e (rte_eth_dev_count e) ?argc ?argv zero_port_info 0") blast
  have nc3: "num_clients ?s3 = 0" and p3: "ports ?s3 = Some zero_port_info"
    by (simp_all add: started_def)
  have tr4: "trace (parsed ?s3 rv p' nc') =
      [Eal_init (rte_eal_init e argc argv), Eth_dev_count,
       Memzone_reserve (MZ_PORT_INFO c) (sizeof_port_info c) True,
       Memset_zero (sizeof_port_info c), Parse_app_args rv]"
    by (simp add: parsed_def started_def)
  have "\<exists>rest. trace (fst (tail_parse c e ?argc ?argv ?s3)) = trace (parsed ?s3 rv p' nc') @ rest"
  proof (cases "rv = 0")
    case False
    with pa nc3 p3 have "tail_parse c e ?argc ?argv ?s3 = (parsed ?s3 rv p' nc', Returned (- 1))"
      by (simp add: tail_parse_def)
    then show ?thesis by simp
  next
    case True
    with pa nc3 p3 have tp: "tail_parse c e ?argc ?argv ?s3 = tail_pool c e (parsed ?s3 rv p' nc')"
      by (simp add: tail_parse_def)
    have p4: "ports (parsed ?s3 rv p' nc') = Some p'"
      by (simp add: parsed_def)
    obtain s' out where "tail_pool c e (parsed ?s3 rv p' nc') = (s', out)"
      by force
    from tail_pool_ends [OF p4 this] this tp show ?thesis
      by auto
  qed
  with run tr4 pa show "\<exists>rest. calls c e argc argv =
           [Eal_init (rte_eal_init e argc argv), Eth_dev_count,
            Memzone_reserve (MZ_PORT_INFO c) (sizeof_port_info c) True,
            Memset_zero (sizeof_port_info c),
            Parse_app_args (fst (parse_app_args e (rte_eth_dev_count e) ?argc ?argv
               zero_port_info 0))] @ rest"
    by (simp add: calls_def)
qed

theorem port_info_zeroed_before_population_witness:
  "rte_eal_process_type ex_primary = RTE_PROC_PRIMARY
   \<and> 0 \<le> rte_eal_init ex_primary 3 ex_argv
   \<and> rte_memzone_reserve ex_primary (MZ_PORT_INFO ex_common) (sizeof_port_info ex_common)
        (rte_socket_id ex_primary) (NO_FLAGS ex_common) = Some \<lparr>num_ports = 7, id_arr = (\<lambda>i. 9)\<rparr>
   \<and> ports (fst (bind_port_info ex_common ex_primary startup)) = Some zero_port_info
   \<and> (\<exists>rest. calls ex_common ex_primary 3 ex_argv =
           [Eal_init 1, Eth_dev_count, Memzone_reserve ''port_info'' 72 True, Memset_zero 72,
            Parse_app_args 0] @ rest)"
proof -
  have a: "rte_eal_process_type ex_primary = RTE_PROC_PRIMARY"
    and b: "0 \<le> rte_eal_init ex_primary 3 ex_argv"
    and c: "rte_memzone_reserve ex_primary (MZ_PORT_INFO ex_common) (sizeof_port_info ex_common)
        (rte_socket_id ex_primary) (NO_FLAGS ex_common) = Some \<lparr>num_ports = 7, id_arr = (\<lambda>i. 9)\<rparr>"
    by (simp_all add: ex_primary_def ex_common_def)
  from port_info_zeroed_before_population [OF a b c, of startup] a b c show ?thesis
    by (simp add: ex_primary_def ex_common_def ex_argv_def)
qed

text \<open>
  C9. For every \<open>num_clients \<ge> 1\<close>, when the allocator and the ring facility do not fail,
  the primary's queue binding returns 0 having created exactly \<open>num_clients\<close> rings: for
  each client index in turn, one ring of 128 slots with the single-producer and
  single-consumer flags, named by \<open>get_rx_queue_name\<close> of the index.
\<close>

theorem primary_creates_one_ring_per_client:
  assumes "rte_eal_process_type e = RTE_PROC_PRIMARY"
    and "1 \<le> num_clients s"
    and "rte_malloc e ''client details'' (sizeof_client c * num_clients s) 0 \<noteq> None"
    and "\<forall>i<num_clients s. rte_ring_create e (get_rx_queue_name c i) 128 (rte_socket_id e)
            {RING_F_SP_ENQ, RING_F_SC_DEQ} \<noteq> None"
  shows "snd (init_shm_rings c e s) = Returned 0
     \<and> trace (fst (init_shm_rings c e s)) =
         trace s @ Malloc ''client details'' (sizeof_client c * num_clients s) True
           # map (\<lambda>i. Ring_create (get_rx_queue_name c i) 128 {RING_F_SP_ENQ, RING_F_SC_DEQ} True)
               [0..<num_clients s]
     \<and> length (map (\<lambda>i. Ring_create (get_rx_queue_name c i) 128
                           {RING_F_SP_ENQ, RING_F_SC_DEQ} True) [0..<num_clients s])
         = num_clients s"
proof -
  have res: "\<forall>j<num_clients s. ring_result c e j \<noteq> None"
    using assms(1,4) by (simp add: ring_result_def CLIENT_QUEUE_RINGSIZE_def)
  have ret: "snd (init_shm_rings c e s) = Returned 0"
    using assms(3) res by (intro init_shm_rings_progress) (simp_all add: malloc_size_def)
  then have run: "init_shm_rings c e s = (fst (init_shm_rings c e s), Returned 0)"
    by (simp add: prod_eq_iff)
  note spec = init_shm_rings_returned [OF run]
  have "map (ring_event c e) [0..<num_clients s]
      = map (\<lambda>i. Ring_create (get_rx_queue_name c i) 128 {RING_F_SP_ENQ, RING_F_SC_DEQ} True)
          [0..<num_clients s]"
    using res assms(1) by (intro map_cong) (auto simp: ring_event_def CLIENT_QUEUE_RINGSIZE_def)
  with spec ret show ?thesis
    by (simp add: malloc_size_def)
qed

theorem primary_creates_one_ring_per_client_witness:
  "rte_eal_process_type ex_primary = RTE_PROC_PRIMARY
   \<and> 1 \<le> num_clients (startup\<lparr>num_clients := 2\<rparr>)
   \<and> snd (init_shm_rings ex_common ex_primary (startup\<lparr>num_clients := 2\<rparr>)) = Returned 0
   \<and> trace (fst (init_shm_rings ex_common ex_primary (startup\<lparr>num_clients := 2\<rparr>))) =
       [Malloc ''client details'' 128 True,
        Ring_create ''rx_'' 128 {RING_F_SP_ENQ, RING_F_SC_DEQ} True,
        Ring_create ''rx_i'' 128 {RING_F_SP_ENQ, RING_F_SC_DEQ} True]"
proof -
  let ?s = "startup\<lparr>num_clients := 2\<rparr>"
  have a: "rte_eal_process_type ex_primary = RTE_PROC_PRIMARY"
    by (simp add: ex_primary_def)
  have b: "1 \<le> num_clients ?s"
    by simp
  have c: "rte_malloc ex_primary ''client details'' (sizeof_client ex_common * num_clients ?s) 0
             \<noteq> None"
    by (simp add: ex_primary_def ex_common_def)
  have d: "\<forall>i<num_clients ?s. rte_ring_create ex_primary (get_rx_queue_name ex_common i) 128
             (rte_socket_id ex_primary) {RING_F_SP_ENQ, RING_F_SC_DEQ} \<noteq> None"
    by (simp add: ex_primary_def)
  have "[0..<2] = [0, Suc 0]"
    by (simp add: upt_conv_Cons)
  with primary_creates_one_ring_per_client [OF a b c d] a b show ?thesis
    by (simp add: ex_common_def)
qed



end
